theory Spec2Isabelle
  imports Main
begin

section \<open>mac2mqtt: the command handler, state publishers and discovery\<close>

text \<open>
  The repository holds two variants of one Go program: \<^verbatim>\<open>src/main.go\<close> and
  \<^verbatim>\<open>src/unnamed/part_000\<close>. The helper functions (\<^verbatim>\<open>getCommandOutput\<close>,
  \<^verbatim>\<open>getCurrentVolume\<close>, \<^verbatim>\<open>setVolume\<close>, \<^verbatim>\<open>updateVolume\<close>, \<^verbatim>\<open>getBatteryInfo\<close>, ...)
  are the same text in both; the message callback inside \<^verbatim>\<open>listen\<close> differs and is
  embedded once per variant.

  Strings are Go byte strings, modelled as \<^typ>\<open>string\<close>. Go's \<^verbatim>\<open>int\<close> is the 64-bit
  integer of the platform the program targets (macOS); values are \<^typ>\<open>int\<close> and the
  only place where the width matters, the range check of \<^verbatim>\<open>strconv.Atoi\<close>, is written out.
\<close>

subsection \<open>Library functions used by the program\<close>

definition is_digit :: "char \<Rightarrow> bool" where
  "is_digit c = (48 \<le> (of_char c :: nat) \<and> (of_char c :: nat) \<le> 57)"

definition digit_val :: "char \<Rightarrow> int" where
  "digit_val c = int (of_char c) - 48"

definition digit_char :: "nat \<Rightarrow> char" where
  "digit_char d = char_of (48 + d)"

text \<open>The digit loop of \<^verbatim>\<open>strconv.Atoi\<close>: \<^verbatim>\<open>n = n*10 + int(ch)\<close>.\<close>

fun digits_value :: "int \<Rightarrow> string \<Rightarrow> int" where
  "digits_value n [] = n"
| "digits_value n (c # cs) = digits_value (n * 10 + digit_val c) cs"

text \<open>
  \<^verbatim>\<open>strconv.Atoi\<close>: an optional sign, then one or more ASCII digits; the error is non-nil
  on an empty string, on a sign with nothing behind it, on any other character and when
  the value does not fit the 64-bit \<^verbatim>\<open>int\<close>. \<open>None\<close> is the non-nil error.
\<close>

definition Atoi :: "string \<Rightarrow> int option" where
  "Atoi s =
     (case s of
        [] \<Rightarrow> None
      | c # cs \<Rightarrow>
          (let body = (if c = CHR ''-'' \<or> c = CHR ''+'' then cs else s) in
           if body = [] \<or> \<not> list_all is_digit body then None
           else
             (let n = digits_value 0 body;
                  v = (if c = CHR ''-'' then - n else n)
              in if - (2 ^ 63) \<le> v \<and> v \<le> 2 ^ 63 - 1 then Some v else None)))"

text \<open>\<^verbatim>\<open>strconv.Itoa\<close>: the decimal form, with a leading minus sign for a negative value.\<close>

fun nat_digits :: "nat \<Rightarrow> string" where
  "nat_digits n = (if n < 10 then [digit_char n] else nat_digits (n div 10) @ [digit_char (n mod 10)])"

declare nat_digits.simps [simp del]

definition Itoa :: "int \<Rightarrow> string" where
  "Itoa i = (if i < 0 then CHR ''-'' # nat_digits (nat (- i)) else nat_digits (nat i))"

text \<open>\<^verbatim>\<open>strconv.ParseBool\<close>: a switch over twelve literal forms, anything else is an error.\<close>

definition ParseBool :: "string \<Rightarrow> bool option" where
  "ParseBool str =
     (if str \<in> set [''1'', ''t'', ''T'', ''true'', ''TRUE'', ''True''] then Some True
      else if str \<in> set [''0'', ''f'', ''F'', ''false'', ''FALSE'', ''False''] then Some False
      else None)"

definition FormatBool :: "bool \<Rightarrow> string" where
  "FormatBool b = (if b then ''true'' else ''false'')"

text \<open>\<^verbatim>\<open>strings.TrimSuffix\<close>, \<^verbatim>\<open>strings.Contains\<close>.\<close>

definition TrimSuffix :: "string \<Rightarrow> string \<Rightarrow> string" where
  "TrimSuffix s suf =
     (if length suf \<le> length s \<and> drop (length s - length suf) s = suf
      then take (length s - length suf) s else s)"

fun is_prefix :: "string \<Rightarrow> string \<Rightarrow> bool" where
  "is_prefix [] s = True"
| "is_prefix (p # ps) [] = False"
| "is_prefix (p # ps) (c # cs) = (p = c \<and> is_prefix ps cs)"

fun Contains :: "string \<Rightarrow> string \<Rightarrow> bool" where
  "Contains [] sub = (sub = [])"
| "Contains (c # cs) sub = (is_prefix sub (c # cs) \<or> Contains cs sub)"

subsection \<open>The process and its surroundings\<close>

text \<open>
  What the program does to the outside is recorded as a list of events, in the order the
  calls are made. A fatal log line (\<^verbatim>\<open>log.Fatal\<close>) carries the error it prints.
\<close>

datatype goerr =
    ExecError string
  | HostnameError string
  | AtoiError string
  | ParseBoolError string

datatype event =
    Exec string "string list"
  | Publish string nat bool string
  | Sleep nat
  | Log string
  | Fatal goerr

text \<open>
  A call either returns, ends the process through \<^verbatim>\<open>log.Fatal\<close> (\<^verbatim>\<open>os.Exit(1)\<close>), or
  panics.
\<close>

datatype 'a outcome = Ret 'a | Exit | Panic

text \<open>A publish token after \<^verbatim>\<open>WaitTimeout\<close>: not completed in time, completed with an error, completed.\<close>

datatype token = TimedOut | Failed string | Done

text \<open>
  The surroundings of the process, over a state \<open>'w\<close> of the outside world: running an
  external command gives either an error (\<open>Inl\<close>) or its standard output (\<open>Inr\<close>);
  the broker client answers a publish with a token; time passes during a sleep;
  \<^verbatim>\<open>os.Getuid\<close> reads the user id and \<^verbatim>\<open>os.Hostname\<close> the machine's name (or an error).
  Commands, publishes and sleeps may change the world.
\<close>

record 'w host =
  run :: "string \<Rightarrow> string list \<Rightarrow> 'w \<Rightarrow> (string + string) \<times> 'w"
  broker :: "string \<Rightarrow> nat \<Rightarrow> bool \<Rightarrow> string \<Rightarrow> 'w \<Rightarrow> token \<times> 'w"
  pass :: "nat \<Rightarrow> 'w \<Rightarrow> 'w"
  getuid :: "'w \<Rightarrow> int"
  machine_name :: "'w \<Rightarrow> string + string"

type_synonym ('w, 'a) prog = "'w \<Rightarrow> 'a outcome \<times> 'w \<times> event list"

definition ret :: "'a \<Rightarrow> ('w, 'a) prog" where
  "ret a w = (Ret a, w, [])"

definition bind :: "('w, 'a) prog \<Rightarrow> ('a \<Rightarrow> ('w, 'b) prog) \<Rightarrow> ('w, 'b) prog" where
  "bind m f w =
     (case m w of
        (Ret a, w1, es) \<Rightarrow> (case f a w1 of (r, w2, es2) \<Rightarrow> (r, w2, es @ es2))
      | (Exit, w1, es) \<Rightarrow> (Exit, w1, es)
      | (Panic, w1, es) \<Rightarrow> (Panic, w1, es))"

definition cmd_Output :: "'w host \<Rightarrow> string \<Rightarrow> string list \<Rightarrow> ('w, string + string) prog" where
  "cmd_Output E name arg w = (case run E name arg w of (r, w1) \<Rightarrow> (Ret r, w1, [Exec name arg]))"

definition client_Publish :: "'w host \<Rightarrow> string \<Rightarrow> nat \<Rightarrow> bool \<Rightarrow> string \<Rightarrow> ('w, token) prog" where
  "client_Publish E topic qos retained payload w =
     (case broker E topic qos retained payload w of
        (tok, w1) \<Rightarrow> (Ret tok, w1, [Publish topic qos retained payload]))"

definition time_Sleep :: "'w host \<Rightarrow> nat \<Rightarrow> ('w, unit) prog" where
  "time_Sleep E secs w = (Ret (), pass E secs w, [Sleep secs])"

definition seq :: "('w, 'a) prog \<Rightarrow> ('w, 'b) prog \<Rightarrow> ('w, 'b) prog" where
  "seq m n = bind m (\<lambda>_. n)"

text \<open>\<^verbatim>\<open>log.Println\<close> and \<^verbatim>\<open>log.Printf\<close> write one line; the argument is the formatted line.\<close>

definition log_Println :: "string \<Rightarrow> ('w, unit) prog" where
  "log_Println line w = (Ret (), w, [Log line])"

definition log_Printf :: "string \<Rightarrow> ('w, unit) prog" where
  "log_Printf line w = (Ret (), w, [Log line])"

definition log_Fatal :: "goerr \<Rightarrow> ('w, 'a) prog" where
  "log_Fatal err w = (Exit, w, [Fatal err])"

definition os_Getuid :: "'w host \<Rightarrow> ('w, int) prog" where
  "os_Getuid E w = (Ret (getuid E w), w, [])"

subsection \<open>Host control: the wrappers around external commands\<close>

definition getCommandOutput :: "'w host \<Rightarrow> string \<Rightarrow> string list \<Rightarrow> ('w, string) prog" where
  "getCommandOutput E name arg =
     bind (cmd_Output E name arg) (\<lambda>r.
       case r of
         Inl err \<Rightarrow> log_Fatal (ExecError err)
       | Inr stdout \<Rightarrow> ret (TrimSuffix stdout [CHR 0x0A]))"

definition getMuteStatus :: "'w host \<Rightarrow> ('w, bool) prog" where
  "getMuteStatus E =
     bind (getCommandOutput E ''/usr/bin/osascript'' [''-e'', ''output muted of (get volume settings)''])
       (\<lambda>output.
          case ParseBool output of
            None \<Rightarrow> log_Fatal (ParseBoolError output)
          | Some b \<Rightarrow> ret b)"

definition getCurrentVolume :: "'w host \<Rightarrow> ('w, int) prog" where
  "getCurrentVolume E =
     bind (getCommandOutput E ''/usr/bin/osascript'' [''-e'', ''output volume of (get volume settings)''])
       (\<lambda>output.
          case Atoi output of
            None \<Rightarrow> log_Fatal (AtoiError output)
          | Some i \<Rightarrow> ret i)"

definition runCommand :: "'w host \<Rightarrow> string \<Rightarrow> string list \<Rightarrow> ('w, unit) prog" where
  "runCommand E name arg =
     bind (cmd_Output E name arg) (\<lambda>r.
       case r of
         Inl err \<Rightarrow> log_Fatal (ExecError err)
       | Inr stdout \<Rightarrow> ret ())"

definition setVolume :: "'w host \<Rightarrow> int \<Rightarrow> ('w, unit) prog" where
  "setVolume E i = runCommand E ''/usr/bin/osascript'' [''-e'', ''set volume output volume '' @ Itoa i]"

definition setMute :: "'w host \<Rightarrow> bool \<Rightarrow> ('w, unit) prog" where
  "setMute E b = runCommand E ''/usr/bin/osascript'' [''-e'', ''set volume output muted '' @ FormatBool b]"

definition commandSleep :: "'w host \<Rightarrow> ('w, unit) prog" where
  "commandSleep E = runCommand E ''pmset'' [''sleepnow'']"

definition commandDisplaySleep :: "'w host \<Rightarrow> ('w, unit) prog" where
  "commandDisplaySleep E = runCommand E ''pmset'' [''displaysleepnow'']"

definition commandShutdown :: "'w host \<Rightarrow> ('w, unit) prog" where
  "commandShutdown E =
     bind (os_Getuid E) (\<lambda>uid.
       if uid = 0 then runCommand E ''shutdown'' [''-h'', ''now'']
       else runCommand E ''/usr/bin/osascript''
              [''-e'', ''tell app '' @ [CHR 0x22] @ ''System Events'' @ [CHR 0x22] @ '' to shut down''])"


text \<open>
  \<^verbatim>\<open>getBatteryInfo\<close> searches the output of \<^verbatim>\<open>pmset -g batt\<close> with the regular expression
  \<^verbatim>\<open>(\d+)%\<close>. \<open>FindStringSubmatch\<close> below is that search: the leftmost position where a run
  of ASCII digits is directly followed by a percent sign; the result holds the whole match
  and the group, and \<open>None\<close> is Go's nil slice for "no match". The run is taken greedily,
  which loses nothing: a shorter run would be followed by a digit, not by the percent sign.
\<close>

fun FindStringSubmatch :: "string \<Rightarrow> string list option" where
  "FindStringSubmatch [] = None"
| "FindStringSubmatch (c # cs) =
     (let ds = takeWhile is_digit (c # cs); rest = dropWhile is_digit (c # cs) in
      if ds \<noteq> [] \<and> (case rest of [] \<Rightarrow> False | r # _ \<Rightarrow> r = CHR ''%'')
      then Some [ds @ ''%'', ds]
      else FindStringSubmatch cs)"

text \<open>Indexing the match with \<^verbatim>\<open>[1]\<close> panics on the nil slice.\<close>

definition getBatteryInfo :: "'w host \<Rightarrow> ('w, string \<times> bool) prog" where
  "getBatteryInfo E =
     bind (getCommandOutput E ''/usr/bin/pmset'' [''-g'', ''batt'']) (\<lambda>output w.
       case FindStringSubmatch output of
         None \<Rightarrow> (Panic, w, [])
       | Some m \<Rightarrow>
           (if 1 < length m then ret (m ! 1, Contains output ''AC Power'') w
            else (Panic, w, [])))"

subsection \<open>State publishers\<close>

definition getTopicPrefix :: "string \<Rightarrow> string" where
  "getTopicPrefix hostname = ''homeassistant/'' @ hostname"

definition updateVolume :: "'w host \<Rightarrow> string \<Rightarrow> ('w, unit) prog" where
  "updateVolume E hostname =
     bind (getCurrentVolume E) (\<lambda>v.
     bind (client_Publish E (getTopicPrefix hostname @ ''/state/volume'') 0 False (Itoa v)) (\<lambda>token.
       case token of
         TimedOut \<Rightarrow> log_Printf ''Update volume timed out after 5s''
       | Failed e \<Rightarrow> log_Printf (''Error updating volume: '' @ e)
       | Done \<Rightarrow> ret ()))"

definition updateMute :: "'w host \<Rightarrow> string \<Rightarrow> ('w, unit) prog" where
  "updateMute E hostname =
     bind (getMuteStatus E) (\<lambda>b.
     bind (client_Publish E (getTopicPrefix hostname @ ''/state/mute'') 0 False (FormatBool b)) (\<lambda>token.
       case token of
         TimedOut \<Rightarrow> log_Printf ''Update mute timed out after 5s''
       | Failed e \<Rightarrow> log_Printf (''Error updating mute: '' @ e)
       | Done \<Rightarrow> ret ()))"

definition updateBattery :: "'w host \<Rightarrow> string \<Rightarrow> ('w, unit) prog" where
  "updateBattery E hostname =
     bind (getBatteryInfo E) (\<lambda>(percent, isCharging).
     bind (client_Publish E (getTopicPrefix hostname @ ''/state/battery'') 0 False percent) (\<lambda>token.
     seq (case token of
            TimedOut \<Rightarrow> log_Printf ''Update battery timed out after 5s''
          | Failed e \<Rightarrow> log_Printf (''Error updating battery: '' @ e)
          | Done \<Rightarrow> ret ())
     (bind (client_Publish E (getTopicPrefix hostname @ ''/state/power_adapter'') 0 False
              (FormatBool isCharging)) (\<lambda>token.
        case token of
          TimedOut \<Rightarrow> log_Printf ''Update power adapter timed out after 5s''
        | Failed e \<Rightarrow> log_Printf (''Error updating power adapter: '' @ e)
        | Done \<Rightarrow> ret ()))))"

subsection \<open>The command handler\<close>

record message =
  Topic :: string
  Payload :: string

text \<open>
  The callback that \<^verbatim>\<open>listen\<close> of \<^verbatim>\<open>src/main.go\<close> subscribes: five \<^verbatim>\<open>if\<close> statements in a
  row, each comparing the topic of the message.
\<close>

definition listen_callback :: "'w host \<Rightarrow> string \<Rightarrow> message \<Rightarrow> ('w, unit) prog" where
  "listen_callback E hostname msg =
     seq (if Topic msg = getTopicPrefix hostname @ ''/command/volume'' then
            (case Atoi (Payload msg) of
               Some i \<Rightarrow>
                 if i \<ge> 0 \<and> i \<le> 100 then
                   seq (setVolume E i)
                  (seq (updateVolume E hostname)
                       (updateMute E hostname))
                 else log_Println ''Incorrect value''
             | None \<Rightarrow> log_Println ''Incorrect value'')
          else ret ())
    (seq (if Topic msg = getTopicPrefix hostname @ ''/command/mute'' then
            (case ParseBool (Payload msg) of
               Some b \<Rightarrow>
                   seq (setMute E b)
                  (seq (updateVolume E hostname)
                       (updateMute E hostname))
             | None \<Rightarrow> log_Println ''Incorrect value'')
          else ret ())
    (seq (if Topic msg = getTopicPrefix hostname @ ''/command/sleep'' then
            (if Payload msg = ''sleep'' then
               bind (client_Publish E (getTopicPrefix hostname @ ''/state/sleep'') 0 False
                       ''sleep_command_received'') (\<lambda>token.
               seq (case token of
                      TimedOut \<Rightarrow> log_Printf ''Publish sleep status timed out after 5s''
                    | Failed e \<Rightarrow> log_Printf (''Error publishing sleep status: '' @ e)
                    | Done \<Rightarrow> ret ())
              (seq (time_Sleep E 1)
                   (commandSleep E)))
             else ret ())
          else ret ())
    (seq (if Topic msg = getTopicPrefix hostname @ ''/command/displaysleep'' then
            (if Payload msg = ''displaysleep'' then
               bind (client_Publish E (getTopicPrefix hostname @ ''/state/displaysleep'') 0 False
                       ''displaysleep_command_received'') (\<lambda>token.
               seq (case token of
                      TimedOut \<Rightarrow> log_Printf ''Publish displaysleep status timed out after 5s''
                    | Failed e \<Rightarrow> log_Printf (''Error publishing displaysleep status: '' @ e)
                    | Done \<Rightarrow> ret ())
              (seq (time_Sleep E 1)
                   (commandDisplaySleep E)))
             else ret ())
          else ret ())
         (if Topic msg = getTopicPrefix hostname @ ''/command/shutdown'' then
            (if Payload msg = ''shutdown'' then
               bind (client_Publish E (getTopicPrefix hostname @ ''/state/shutdown'') 0 False
                       ''shutdown_command_received'') (\<lambda>token.
               seq (case token of
                      TimedOut \<Rightarrow> log_Printf ''Publish shutdown status timed out after 5s''
                    | Failed e \<Rightarrow> log_Printf (''Error publishing shutdown status: '' @ e)
                    | Done \<Rightarrow> ret ())
              (seq (time_Sleep E 1)
                   (commandShutdown E)))
             else ret ())
          else ret ()))))"

text \<open>
  The callback of \<^verbatim>\<open>src/unnamed/part_000\<close>: it logs every message first
  (\<^verbatim>\<open>log.Println\<close> does not interpret the \<^verbatim>\<open>%s\<close> verbs: it prints its operands separated by
  spaces), then runs one \<^verbatim>\<open>if / else if\<close> chain. A volume or mute command sleeps one second
  between the mutator and the publishers; sleep, display sleep and shutdown publish no
  acknowledgement.
\<close>

definition listen_callback_part_000 :: "'w host \<Rightarrow> string \<Rightarrow> message \<Rightarrow> ('w, unit) prog" where
  "listen_callback_part_000 E hostname msg =
     (let topicPrefix = getTopicPrefix hostname;
          topic = Topic msg;
          commd = Payload msg
      in
      seq (log_Println (''Received command:  [ %s ] [ %s ] '' @ topic @ '' '' @ commd))
       (if topic = topicPrefix @ ''/command/volume'' then
          (case Atoi (Payload msg) of
             Some i \<Rightarrow>
               if i \<ge> 0 \<and> i \<le> 100 then
                 seq (setVolume E i)
                (seq (time_Sleep E 1)
                (seq (updateVolume E hostname)
                     (updateMute E hostname)))
               else log_Println ''Incorrect volume value''
           | None \<Rightarrow> log_Println ''Incorrect volume value'')
        else if topic = topicPrefix @ ''/command/mute'' then
          (case ParseBool (Payload msg) of
             Some b \<Rightarrow>
                 seq (setMute E b)
                (seq (time_Sleep E 1)
                (seq (updateVolume E hostname)
                     (updateMute E hostname)))
           | None \<Rightarrow> log_Println ''Incorrect mute value'')
        else if topic = topicPrefix @ ''/command/sleep'' then
          (if Payload msg = ''sleep'' then commandSleep E else ret ())
        else if topic = topicPrefix @ ''/command/displaysleep'' then
          (if Payload msg = ''displaysleep'' then commandDisplaySleep E else ret ())
        else if topic = topicPrefix @ ''/command/shutdown'' then
          (if Payload msg = ''shutdown'' then commandShutdown E else ret ())
        else ret ()))"


subsection \<open>Discovery\<close>

record Device =
  Identifiers :: "string list"
  Name :: string
  Manufacturer :: string
  Model :: string

record SensorConfig =
  sensor_Name :: string
  sensor_StateTopic :: string
  sensor_UniqueID :: string
  sensor_UnitOfMeasurement :: string
  sensor_DeviceClass :: string
  sensor_ValueTemplate :: string
  sensor_Device :: Device

record BinarySensorConfig =
  binary_Name :: string
  binary_StateTopic :: string
  binary_UniqueID :: string
  binary_DeviceClass :: string
  binary_PayloadOn :: string
  binary_PayloadOff :: string
  binary_Device :: Device

record SwitchConfig =
  switch_Name :: string
  switch_CommandTopic :: string
  switch_StateTopic :: string
  switch_UniqueID :: string
  switch_Device :: Device

record NumberConfig =
  number_Name :: string
  number_CommandTopic :: string
  number_StateTopic :: string
  number_UniqueID :: string
  number_Min :: int
  number_Max :: int
  number_Device :: Device

text \<open>The \<^verbatim>\<open>config interface{}\<close> argument of \<^verbatim>\<open>publishConfig\<close> holds one of the four structs.\<close>

datatype config =
    Number NumberConfig
  | Switch SwitchConfig
  | Sensor SensorConfig
  | BinarySensor BinarySensorConfig

text \<open>
  \<^verbatim>\<open>json.Marshal\<close> of these structs: an object with the fields in declaration order under
  the names of their \<^verbatim>\<open>json\<close> tags, without white space; a string field tagged
  \<^verbatim>\<open>omitempty\<close> is left out when it is empty. No field of these structs can make
  \<^verbatim>\<open>json.Marshal\<close> fail, so the error branch of \<^verbatim>\<open>publishConfig\<close> is never taken.
  The encoder of string literals (quoting and escaping) belongs to \<^verbatim>\<open>encoding/json\<close>,
  not to this repository: it is the parameter \<open>q\<close>.
\<close>

fun join :: "string \<Rightarrow> string list \<Rightarrow> string" where
  "join sep [] = []"
| "join sep [x] = x"
| "join sep (x # y # ys) = x @ sep @ join sep (y # ys)"

definition json_object :: "(string \<Rightarrow> string) \<Rightarrow> (string \<times> string) list \<Rightarrow> string" where
  "json_object q members = ''{'' @ join '','' (map (\<lambda>(k, v). q k @ '':'' @ v) members) @ ''}''"

definition json_array :: "string list \<Rightarrow> string" where
  "json_array items = ''['' @ join '','' items @ '']''"

definition omitempty :: "(string \<Rightarrow> string) \<Rightarrow> string \<Rightarrow> string \<Rightarrow> (string \<times> string) list" where
  "omitempty q key v = (if v = [] then [] else [(key, q v)])"

definition Device_fields :: "(string \<Rightarrow> string) \<Rightarrow> Device \<Rightarrow> (string \<times> string) list" where
  "Device_fields q d =
     [(''identifiers'', json_array (map q (Identifiers d))),
      (''name'', q (Name d)),
      (''manufacturer'', q (Manufacturer d)),
      (''model'', q (Model d))]"

fun config_fields :: "(string \<Rightarrow> string) \<Rightarrow> config \<Rightarrow> (string \<times> string) list" where
  "config_fields q (Number c) =
     [(''name'', q (number_Name c)),
      (''command_topic'', q (number_CommandTopic c)),
      (''state_topic'', q (number_StateTopic c)),
      (''unique_id'', q (number_UniqueID c)),
      (''min'', Itoa (number_Min c)),
      (''max'', Itoa (number_Max c)),
      (''device'', json_object q (Device_fields q (number_Device c)))]"
| "config_fields q (Switch c) =
     [(''name'', q (switch_Name c)),
      (''command_topic'', q (switch_CommandTopic c))]
     @ omitempty q ''state_topic'' (switch_StateTopic c)
     @ [(''unique_id'', q (switch_UniqueID c)),
        (''device'', json_object q (Device_fields q (switch_Device c)))]"
| "config_fields q (Sensor c) =
     [(''name'', q (sensor_Name c)),
      (''state_topic'', q (sensor_StateTopic c)),
      (''unique_id'', q (sensor_UniqueID c))]
     @ omitempty q ''unit_of_measurement'' (sensor_UnitOfMeasurement c)
     @ omitempty q ''device_class'' (sensor_DeviceClass c)
     @ omitempty q ''value_template'' (sensor_ValueTemplate c)
     @ [(''device'', json_object q (Device_fields q (sensor_Device c)))]"
| "config_fields q (BinarySensor c) =
     [(''name'', q (binary_Name c)),
      (''state_topic'', q (binary_StateTopic c)),
      (''unique_id'', q (binary_UniqueID c))]
     @ omitempty q ''device_class'' (binary_DeviceClass c)
     @ omitempty q ''payload_on'' (binary_PayloadOn c)
     @ omitempty q ''payload_off'' (binary_PayloadOff c)
     @ [(''device'', json_object q (Device_fields q (binary_Device c)))]"

definition json_Marshal :: "(string \<Rightarrow> string) \<Rightarrow> config \<Rightarrow> string" where
  "json_Marshal q c = json_object q (config_fields q c)"

definition publishConfig ::
  "'w host \<Rightarrow> (string \<Rightarrow> string) \<Rightarrow> string \<Rightarrow> string \<Rightarrow> config \<Rightarrow> ('w, unit) prog" where
  "publishConfig E q component objectId cfg =
     (let configTopic = ''homeassistant/'' @ component @ ''/'' @ objectId @ ''/config'';
          configBytes = json_Marshal q cfg
      in bind (client_Publish E configTopic 0 True configBytes) (\<lambda>token.
           case token of
             TimedOut \<Rightarrow> log_Printf ''Publish config timed out after 5s''
           | Failed e \<Rightarrow> log_Printf (''Error publishing config: '' @ e)
           | Done \<Rightarrow> log_Printf (''Published '' @ component @ '' config to '' @ configTopic)))"

text \<open>
  The descriptors that \<^verbatim>\<open>publishHADiscoveryConfig\<close> of \<^verbatim>\<open>src/main.go\<close> builds, from the globals
  \<^verbatim>\<open>hostname\<close> and \<^verbatim>\<open>model\<close>. Fields the struct literal does not name are Go's zero value,
  the empty string.
\<close>

definition device :: "string \<Rightarrow> string \<Rightarrow> Device" where
  "device hostname model =
     \<lparr>Identifiers = [hostname], Name = hostname, Manufacturer = ''Apple'', Model = model\<rparr>"

definition volumeNumberConfig :: "string \<Rightarrow> string \<Rightarrow> NumberConfig" where
  "volumeNumberConfig hostname model =
     \<lparr>number_Name = hostname @ '' Volume'',
      number_CommandTopic = getTopicPrefix hostname @ ''/command/volume'',
      number_StateTopic = getTopicPrefix hostname @ ''/state/volume'',
      number_UniqueID = hostname @ ''_volume'',
      number_Min = 0,
      number_Max = 100,
      number_Device = device hostname model\<rparr>"

definition muteSwitchConfig :: "string \<Rightarrow> string \<Rightarrow> SwitchConfig" where
  "muteSwitchConfig hostname model =
     \<lparr>switch_Name = hostname @ '' Mute'',
      switch_CommandTopic = getTopicPrefix hostname @ ''/command/mute'',
      switch_StateTopic = getTopicPrefix hostname @ ''/state/mute'',
      switch_UniqueID = hostname @ ''_mute'',
      switch_Device = device hostname model\<rparr>"

definition batteryConfig :: "string \<Rightarrow> string \<Rightarrow> SensorConfig" where
  "batteryConfig hostname model =
     \<lparr>sensor_Name = hostname @ '' Battery Level'',
      sensor_StateTopic = getTopicPrefix hostname @ ''/state/battery'',
      sensor_UniqueID = hostname @ ''_battery'',
      sensor_UnitOfMeasurement = ''%'',
      sensor_DeviceClass = ''battery'',
      sensor_ValueTemplate = [],
      sensor_Device = device hostname model\<rparr>"

definition powerAdapterConfig :: "string \<Rightarrow> string \<Rightarrow> BinarySensorConfig" where
  "powerAdapterConfig hostname model =
     \<lparr>binary_Name = hostname @ '' Power Adapter'',
      binary_StateTopic = getTopicPrefix hostname @ ''/state/power_adapter'',
      binary_UniqueID = hostname @ ''_power_adapter'',
      binary_DeviceClass = ''plug'',
      binary_PayloadOn = ''true'',
      binary_PayloadOff = ''false'',
      binary_Device = device hostname model\<rparr>"

definition sleepSwitchConfig :: "string \<Rightarrow> string \<Rightarrow> SwitchConfig" where
  "sleepSwitchConfig hostname model =
     \<lparr>switch_Name = hostname @ '' Sleep'',
      switch_CommandTopic = getTopicPrefix hostname @ ''/command/sleep'',
      switch_StateTopic = getTopicPrefix hostname @ ''/state/sleep'',
      switch_UniqueID = hostname @ ''_sleep'',
      switch_Device = device hostname model\<rparr>"

definition displaySleepSwitchConfig :: "string \<Rightarrow> string \<Rightarrow> SwitchConfig" where
  "displaySleepSwitchConfig hostname model =
     \<lparr>switch_Name = hostname @ '' Display Sleep'',
      switch_CommandTopic = getTopicPrefix hostname @ ''/command/displaysleep'',
      switch_StateTopic = getTopicPrefix hostname @ ''/state/displaysleep'',
      switch_UniqueID = hostname @ ''_display_sleep'',
      switch_Device = device hostname model\<rparr>"

definition shutdownSwitchConfig :: "string \<Rightarrow> string \<Rightarrow> SwitchConfig" where
  "shutdownSwitchConfig hostname model =
     \<lparr>switch_Name = hostname @ '' Shutdown'',
      switch_CommandTopic = getTopicPrefix hostname @ ''/command/shutdown'',
      switch_StateTopic = getTopicPrefix hostname @ ''/state/shutdown'',
      switch_UniqueID = hostname @ ''_shutdown'',
      switch_Device = device hostname model\<rparr>"

definition publishHADiscoveryConfig ::
  "'w host \<Rightarrow> (string \<Rightarrow> string) \<Rightarrow> string \<Rightarrow> string \<Rightarrow> ('w, unit) prog" where
  "publishHADiscoveryConfig E q hostname model =
     seq (publishConfig E q ''number'' (hostname @ ''_volume'')
            (Number (volumeNumberConfig hostname model)))
    (seq (publishConfig E q ''switch'' (hostname @ ''_mute'')
            (Switch (muteSwitchConfig hostname model)))
    (seq (publishConfig E q ''sensor'' (hostname @ ''_battery'')
            (Sensor (batteryConfig hostname model)))
    (seq (publishConfig E q ''binary_sensor'' (hostname @ ''_power_adapter'')
            (BinarySensor (powerAdapterConfig hostname model)))
    (seq (publishConfig E q ''switch'' (hostname @ ''_sleep'')
            (Switch (sleepSwitchConfig hostname model)))
    (seq (publishConfig E q ''switch'' (hostname @ ''_display_sleep'')
            (Switch (displaySleepSwitchConfig hostname model)))
         (publishConfig E q ''switch'' (hostname @ ''_shutdown'')
            (Switch (shutdownSwitchConfig hostname model))))))))"


subsection \<open>The host identity\<close>

text \<open>
  \<^verbatim>\<open>getHostname\<close>: the part of \<^verbatim>\<open>os.Hostname()\<close> before the first dot, with every match of
  the regular expression \<^verbatim>\<open>[^a-zA-Z0-9_-]+\<close> replaced by the empty string. A match is a
  maximal run of bytes outside the class (a byte above 127 is outside it, whether it is part
  of a well-formed rune or not).
\<close>

definition in_class :: "char \<Rightarrow> bool" where
  "in_class c =
     (let n = (of_char c :: nat) in
      (97 \<le> n \<and> n \<le> 122) \<or> (65 \<le> n \<and> n \<le> 90) \<or> (48 \<le> n \<and> n \<le> 57)
      \<or> c = CHR ''_'' \<or> c = CHR ''-'')"

function ReplaceAllString_empty :: "string \<Rightarrow> string" where
  "ReplaceAllString_empty [] = []"
| "ReplaceAllString_empty (c # cs) =
     (if in_class c then c # ReplaceAllString_empty cs
      else ReplaceAllString_empty (dropWhile (\<lambda>x. \<not> in_class x) cs))"
  by pat_completeness auto
termination
  by (relation "measure length") (auto simp: le_imp_less_Suc length_dropWhile_le)

definition getHostname :: "'w host \<Rightarrow> ('w, string) prog" where
  "getHostname E w =
     (case machine_name E w of
        Inl err \<Rightarrow> log_Fatal (HostnameError err) w
      | Inr hostname \<Rightarrow>
          (let firstPart = takeWhile (\<lambda>c. c \<noteq> CHR ''.'') hostname
           in ret (ReplaceAllString_empty firstPart) w))"

text \<open>
  The two assignments by which \<^verbatim>\<open>main\<close> sets the globals \<^verbatim>\<open>hostname\<close> and \<^verbatim>\<open>model\<close>, in both
  variants: \<^verbatim>\<open>hostname = "MacBookPRO_M2"\<close>, \<^verbatim>\<open>model = hostname\<close>. \<^verbatim>\<open>getHostname\<close> is not called.
\<close>

definition main_globals :: "'w host \<Rightarrow> ('w, string \<times> string) prog" where
  "main_globals E =
     (let hostname = ''MacBookPRO_M2'';
          model = hostname
      in ret (hostname, model))"

subsection \<open>Reading the event list\<close>

fun publish_on :: "string \<Rightarrow> event \<Rightarrow> string list" where
  "publish_on topic (Publish t qos retained payload) = (if t = topic then [payload] else [])"
| "publish_on topic (Exec name arg) = []"
| "publish_on topic (Sleep n) = []"
| "publish_on topic (Log line) = []"
| "publish_on topic (Fatal err) = []"

text \<open>The payloads published on a topic, in order.\<close>

definition published :: "string \<Rightarrow> event list \<Rightarrow> string list" where
  "published topic es = concat (map (publish_on topic) es)"

fun is_Log :: "event \<Rightarrow> bool" where
  "is_Log (Log line) = True"
| "is_Log (Publish t qos retained payload) = False"
| "is_Log (Exec name arg) = False"
| "is_Log (Sleep n) = False"
| "is_Log (Fatal err) = False"

fun is_Publish :: "event \<Rightarrow> bool" where
  "is_Publish (Publish t qos retained payload) = True"
| "is_Publish (Log line) = False"
| "is_Publish (Exec name arg) = False"
| "is_Publish (Sleep n) = False"
| "is_Publish (Fatal err) = False"

text \<open>A digit directly followed by a percent sign occurs in the string.\<close>

fun has_percent :: "string \<Rightarrow> bool" where
  "has_percent (a # b # cs) = ((is_digit a \<and> b = CHR ''%'') \<or> has_percent (b # cs))"
| "has_percent [a] = False"
| "has_percent [] = False"

text \<open>What the process did besides writing log lines.\<close>

definition actions :: "event list \<Rightarrow> event list" where
  "actions es = filter (\<lambda>e. \<not> is_Log e) es"

definition publishes :: "event list \<Rightarrow> event list" where
  "publishes es = filter is_Publish es"

text \<open>
  The broker's retained messages after a list of events: a retained publish replaces the
  message its topic holds.
\<close>

fun retain :: "event \<Rightarrow> (string \<rightharpoonup> string) \<Rightarrow> (string \<rightharpoonup> string)" where
  "retain (Publish t qos retained payload) store = (if retained then store(t \<mapsto> payload) else store)"
| "retain (Exec name arg) store = store"
| "retain (Sleep n) store = store"
| "retain (Log line) store = store"
| "retain (Fatal err) store = store"

definition retained_store :: "event list \<Rightarrow> (string \<rightharpoonup> string) \<Rightarrow> (string \<rightharpoonup> string)" where
  "retained_store es store = fold retain es store"

subsection \<open>The two variants side by side\<close>

datatype variant = Main_go | Part_000

definition callback :: "variant \<Rightarrow> 'w host \<Rightarrow> string \<Rightarrow> message \<Rightarrow> ('w, unit) prog" where
  "callback v = (case v of Main_go \<Rightarrow> listen_callback | Part_000 \<Rightarrow> listen_callback_part_000)"

text \<open>The world in which the publishers run after a mutator returned in world \<open>w\<close>.\<close>

definition settled :: "variant \<Rightarrow> 'w host \<Rightarrow> 'w \<Rightarrow> 'w" where
  "settled v E w = (case v of Main_go \<Rightarrow> w | Part_000 \<Rightarrow> pass E 1 w)"

definition settle_events :: "variant \<Rightarrow> event list" where
  "settle_events v = (case v of Main_go \<Rightarrow> [] | Part_000 \<Rightarrow> [Sleep 1])"

text \<open>The line that the variant logs for every message before it looks at the topic.\<close>

definition receipt :: "variant \<Rightarrow> message \<Rightarrow> event list" where
  "receipt v msg =
     (case v of
        Main_go \<Rightarrow> []
      | Part_000 \<Rightarrow> [Log (''Received command:  [ %s ] [ %s ] '' @ Topic msg @ '' '' @ Payload msg)])"

definition announce :: "variant \<Rightarrow> message \<Rightarrow> ('w, unit) prog" where
  "announce v msg =
     (case v of
        Main_go \<Rightarrow> ret ()
      | Part_000 \<Rightarrow>
          log_Println (''Received command:  [ %s ] [ %s ] '' @ Topic msg @ '' '' @ Payload msg))"

text \<open>What the variant does between a mutator and the publishers.\<close>

definition settle :: "variant \<Rightarrow> 'w host \<Rightarrow> ('w, unit) prog" where
  "settle v E = (case v of Main_go \<Rightarrow> ret () | Part_000 \<Rightarrow> time_Sleep E 1)"

text \<open>The line that the variant logs when it rejects a volume or mute payload.\<close>

definition rejection :: "variant \<Rightarrow> string \<Rightarrow> string" where
  "rejection v what =
     (case v of
        Main_go \<Rightarrow> ''Incorrect value''
      | Part_000 \<Rightarrow> ''Incorrect '' @ what @ '' value'')"

text \<open>
  The three power commands: the last part of the command topic, which is also the payload
  the handler compares with, and the external commands that carry the action out
  (\<^verbatim>\<open>commandShutdown\<close> picks one of two by the user id).
\<close>

definition power_commands :: "(string \<times> event list) list" where
  "power_commands =
     [(''sleep'', [Exec ''pmset'' [''sleepnow'']]),
      (''displaysleep'', [Exec ''pmset'' [''displaysleepnow'']]),
      (''shutdown'',
         [Exec ''shutdown'' [''-h'', ''now''],
          Exec ''/usr/bin/osascript''
            [''-e'', ''tell app '' @ [CHR 0x22] @ ''System Events'' @ [CHR 0x22] @ '' to shut down'']])]"

subsection \<open>Hosts to run the program on\<close>

text \<open>
  A host whose volume reads 42 and whose mute reads false whatever was set, on a laptop
  running on battery; every command succeeds and every publish completes.
\<close>

definition stuck_host :: "unit host" where
  "stuck_host =
     \<lparr>run = (\<lambda>name arg w.
         if arg = [''-e'', ''output volume of (get volume settings)''] then (Inr (''42'' @ [CHR 0x0A]), w)
         else if arg = [''-e'', ''output muted of (get volume settings)''] then (Inr (''false'' @ [CHR 0x0A]), w)
         else if name = ''/usr/bin/pmset'' then (Inr ('' -InternalBattery-0 (id=4653155) 87%; discharging'' @ [CHR 0x0A]), w)
         else (Inr [], w)),
      broker = (\<lambda>topic qos retained payload w. (Done, w)),
      pass = (\<lambda>secs w. w),
      getuid = (\<lambda>w. 501),
      machine_name = (\<lambda>w. Inr ''studio.local'')\<rparr>"

text \<open>A desktop machine: \<^verbatim>\<open>pmset -g batt\<close> names the power source and lists no battery.\<close>

definition desktop_host :: "unit host" where
  "desktop_host =
     stuck_host\<lparr>run := (\<lambda>name arg w.
         if name = ''/usr/bin/pmset''
         then (Inr (''Now drawing from '' @ [CHR 0x27] @ ''AC Power'' @ [CHR 0x27, CHR 0x0A]), w)
         else run stuck_host name arg w)\<rparr>"



subsection \<open>The entities of the discovery pass\<close>

text \<open>
  The descriptors in the order in which \<^verbatim>\<open>publishHADiscoveryConfig\<close> publishes them, each
  with its component, and the message expected for one: retained, on the topic made from
  the component and the unique id that the descriptor itself carries.
\<close>

fun unique_id :: "config \<Rightarrow> string" where
  "unique_id (Number c) = number_UniqueID c"
| "unique_id (Switch c) = switch_UniqueID c"
| "unique_id (Sensor c) = sensor_UniqueID c"
| "unique_id (BinarySensor c) = binary_UniqueID c"

definition discovery_entities :: "string \<Rightarrow> string \<Rightarrow> (string \<times> config) list" where
  "discovery_entities hostname model =
     [(''number'', Number (volumeNumberConfig hostname model)),
      (''switch'', Switch (muteSwitchConfig hostname model)),
      (''sensor'', Sensor (batteryConfig hostname model)),
      (''binary_sensor'', BinarySensor (powerAdapterConfig hostname model)),
      (''switch'', Switch (sleepSwitchConfig hostname model)),
      (''switch'', Switch (displaySleepSwitchConfig hostname model)),
      (''switch'', Switch (shutdownSwitchConfig hostname model))]"

definition discovery_publish :: "(string \<Rightarrow> string) \<Rightarrow> string \<times> config \<Rightarrow> event" where
  "discovery_publish q entity =
     (case entity of (kind, cfg) \<Rightarrow>
        Publish (''homeassistant/'' @ kind @ ''/'' @ unique_id cfg @ ''/config'') 0 True (json_Marshal q cfg))"

text \<open>A host whose broker client lets every other publish time out; the world counts the publishes.\<close>

definition flaky_host :: "nat host" where
  "flaky_host =
     \<lparr>run = (\<lambda>name arg w. (Inr [], w)),
      broker = (\<lambda>topic qos retained payload w. (if even w then TimedOut else Done, Suc w)),
      pass = (\<lambda>secs w. w),
      getuid = (\<lambda>w. 0),
      machine_name = (\<lambda>w. Inr ''testhost'')\<rparr>"

section \<open>Reasoning about runs\<close>

lemmas prog_splits = prod.splits sum.splits option.splits token.splits outcome.splits

lemma published_simps [simp]:
  "published t [] = []"
  "published t (e # es) = publish_on t e @ published t es"
  "published t (es @ es') = published t es @ published t es'"
  by (simp_all add: published_def)

lemma actions_simps [simp]:
  "actions [] = []"
  "actions (e # es) = (if is_Log e then actions es else e # actions es)"
  "actions (es @ es') = actions es @ actions es'"
  by (simp_all add: actions_def)

lemma seq_ret_left: "seq (ret a) n = n"
  by (rule ext) (simp add: seq_def bind_def ret_def split: prod.splits)

lemma seq_ret_right: "seq m (ret ()) = m"
  by (rule ext) (simp add: seq_def bind_def ret_def split: prod.splits outcome.splits)

lemma bind_cases:
  assumes "bind m f w = (r, w', es)"
  obtains (Returned) a w1 es1 es2 where "m w = (Ret a, w1, es1)" "f a w1 = (r, w', es2)" "es = es1 @ es2"
  | (Exited) "m w = (Exit, w', es)" "r = Exit"
  | (Panicked) "m w = (Panic, w', es)" "r = Panic"
proof -
  obtain r1 w1 es1 where m: "m w = (r1, w1, es1)" by (cases "m w") auto
  show thesis
  proof (cases r1)
    case (Ret a)
    obtain r2 w2 es2 where f: "f a w1 = (r2, w2, es2)" by (cases "f a w1") auto
    from assms m Ret f have "r = r2" "w' = w2" "es = es1 @ es2" by (simp_all add: bind_def)
    with m Ret f show thesis by (intro Returned[of a w1 es1 es2]) simp_all
  next
    case Exit
    with assms m show thesis by (intro Exited) (simp_all add: bind_def)
  next
    case Panic
    with assms m show thesis by (intro Panicked) (simp_all add: bind_def)
  qed
qed

lemma seq_cases:
  assumes "seq m n w = (r, w', es)"
  obtains (Returned) a w1 es1 es2 where "m w = (Ret a, w1, es1)" "n w1 = (r, w', es2)" "es = es1 @ es2"
  | (Exited) "m w = (Exit, w', es)" "r = Exit"
  | (Panicked) "m w = (Panic, w', es)" "r = Panic"
  using assms unfolding seq_def by (rule bind_cases)

lemma announce_eval: "announce v msg w = (Ret (), w, receipt v msg)"
  by (cases v) (simp_all add: announce_def receipt_def ret_def log_Println_def)

lemma settle_eval: "settle v E w = (Ret (), settled v E w, settle_events v)"
  by (cases v) (simp_all add: settle_def settled_def settle_events_def ret_def time_Sleep_def)

lemma receipt_logs [simp]: "published t (receipt v msg) = []" "actions (receipt v msg) = []"
  by (cases v; simp add: receipt_def)+

lemma settle_events_published [simp]: "published t (settle_events v) = []"
  by (cases v) (simp_all add: settle_events_def)

lemma settle_events_actions [simp]: "actions (settle_events v) = settle_events v"
  by (cases v) (simp_all add: settle_events_def)

text \<open>A command that runs a mutator, settles and publishes: how its result is put together.\<close>

lemma mutate_publish_cases:
  assumes "seq (announce v msg) (seq m (seq (settle v E) p)) w = (r, w', es)"
  obtains (Published) u w1 es1 es2 where "m w = (Ret u, w1, es1)" "p (settled v E w1) = (r, w', es2)"
      "es = receipt v msg @ es1 @ settle_events v @ es2"
  | (Exited) es1 where "m w = (Exit, w', es1)" "r = Exit" "es = receipt v msg @ es1"
  | (Panicked) es1 where "m w = (Panic, w', es1)" "r = Panic" "es = receipt v msg @ es1"
proof -
  from assms obtain es0 where run: "seq m (seq (settle v E) p) w = (r, w', es0)"
    and es: "es = receipt v msg @ es0"
    by (cases rule: seq_cases) (auto simp: announce_eval)
  from run show thesis
  proof (cases rule: seq_cases)
    case (Returned u w1 es1 es2)
    from Returned(2) obtain es3 where "p (settled v E w1) = (r, w', es3)" "es2 = settle_events v @ es3"
      by (cases rule: seq_cases) (auto simp: settle_eval)
    with Returned es show thesis by (intro Published[of u w1 es1 es3]) simp_all
  next
    case Exited
    with es show thesis by (intro that(2)) simp_all
  next
    case Panicked
    with es show thesis by (intro that(3)) simp_all
  qed
qed

lemma callback_volume_msg:
  assumes "Topic msg = getTopicPrefix h @ ''/command/volume''"
  shows "callback v E h msg =
     seq (announce v msg)
       (case Atoi (Payload msg) of
          Some i \<Rightarrow>
            if 0 \<le> i \<and> i \<le> 100
            then seq (setVolume E i) (seq (settle v E) (seq (updateVolume E h) (updateMute E h)))
            else log_Println (rejection v ''volume'')
        | None \<Rightarrow> log_Println (rejection v ''volume''))"
  using assms
  by (cases v)
    (auto simp: callback_def listen_callback_def listen_callback_part_000_def announce_def settle_def
      rejection_def seq_ret_left seq_ret_right split: option.splits)

lemma callback_mute_msg:
  assumes "Topic msg = getTopicPrefix h @ ''/command/mute''"
  shows "callback v E h msg =
     seq (announce v msg)
       (case ParseBool (Payload msg) of
          Some b \<Rightarrow> seq (setMute E b) (seq (settle v E) (seq (updateVolume E h) (updateMute E h)))
        | None \<Rightarrow> log_Println (rejection v ''mute''))"
  using assms
  by (cases v)
    (auto simp: callback_def listen_callback_def listen_callback_part_000_def announce_def settle_def
      rejection_def seq_ret_left seq_ret_right split: option.splits)

lemma announce_then_log:
  "seq (announce v msg) (log_Println line) w = (Ret (), w, receipt v msg @ [Log line])"
  by (simp add: seq_def bind_def announce_eval log_Println_def)

lemma runCommand_eval:
  "runCommand E name arg w =
     (case run E name arg w of
        (Inl err, w1) \<Rightarrow> (Exit, w1, [Exec name arg, Fatal (ExecError err)])
      | (Inr out, w1) \<Rightarrow> (Ret (), w1, [Exec name arg]))"
  by (simp add: runCommand_def bind_def cmd_Output_def log_Fatal_def ret_def
      split: prod.splits sum.splits)

lemma getCommandOutput_eval:
  "getCommandOutput E name arg w =
     (case run E name arg w of
        (Inl err, w1) \<Rightarrow> (Exit, w1, [Exec name arg, Fatal (ExecError err)])
      | (Inr out, w1) \<Rightarrow> (Ret (TrimSuffix out [CHR 0x0A]), w1, [Exec name arg]))"
  by (simp add: getCommandOutput_def bind_def cmd_Output_def log_Fatal_def ret_def
      split: prod.splits sum.splits)

lemma runCommand_facts:
  assumes "runCommand E name arg w = (r, w1, es)"
  shows "published t es = []" and "r \<noteq> Panic" and "\<exists>rest. es = Exec name arg # rest"
    and "r = Ret u \<Longrightarrow> es = [Exec name arg]"
  using assms by (auto simp: runCommand_eval split: prog_splits)

lemma getCurrentVolume_facts:
  assumes "getCurrentVolume E w = (r, w1, es)"
  shows "published t es = []"
    and "r = Ret cur \<Longrightarrow> es = [Exec ''/usr/bin/osascript'' [''-e'', ''output volume of (get volume settings)'']]"
  using assms
  by (auto simp: getCurrentVolume_def bind_def getCommandOutput_eval log_Fatal_def ret_def
      split: prog_splits)

lemma getMuteStatus_facts:
  assumes "getMuteStatus E w = (r, w1, es)"
  shows "published t es = []"
    and "r = Ret b \<Longrightarrow> es = [Exec ''/usr/bin/osascript'' [''-e'', ''output muted of (get volume settings)'']]"
  using assms
  by (auto simp: getMuteStatus_def bind_def getCommandOutput_eval log_Fatal_def ret_def
      split: prog_splits)

lemma updateVolume_published:
  assumes "updateVolume E h w = (r, w1, es)"
  shows "published (getTopicPrefix h @ ''/state/volume'') es =
     (case getCurrentVolume E w of (Ret cur, w2, es2) \<Rightarrow> [Itoa cur] | (Exit, w2, es2) \<Rightarrow> [] | (Panic, w2, es2) \<Rightarrow> [])"
  using assms unfolding updateVolume_def
proof (cases rule: bind_cases)
  case (Returned cur w2 es1 es2)
  then show ?thesis
    by (auto simp: bind_def client_Publish_def log_Printf_def ret_def getCurrentVolume_facts(1)
        split: prog_splits)
qed (simp_all add: getCurrentVolume_facts(1))

lemma updateVolume_actions:
  assumes "updateVolume E h w = (Ret u, w1, es)"
  shows "\<exists>cur. actions es =
     [Exec ''/usr/bin/osascript'' [''-e'', ''output volume of (get volume settings)''],
      Publish (getTopicPrefix h @ ''/state/volume'') 0 False (Itoa cur)]"
  using assms unfolding updateVolume_def
proof (cases rule: bind_cases)
  case (Returned cur w2 es1 es2)
  from Returned(1) have "es1 = [Exec ''/usr/bin/osascript'' [''-e'', ''output volume of (get volume settings)'']]"
    by (rule getCurrentVolume_facts(2)) simp
  with Returned show ?thesis
    by (auto simp: bind_def client_Publish_def log_Printf_def ret_def split: prog_splits)
qed simp_all

lemma updateMute_published_volume:
  assumes "updateMute E h w = (r, w1, es)"
  shows "published (getTopicPrefix h @ ''/state/volume'') es = []"
  using assms unfolding updateMute_def
proof (cases rule: bind_cases)
  case (Returned cur w2 es1 es2)
  then show ?thesis
    by (auto simp: bind_def client_Publish_def log_Printf_def ret_def getMuteStatus_facts(1)
        split: prog_splits)
qed (simp_all add: getMuteStatus_facts(1))

lemma updateMute_actions:
  assumes "updateMute E h w = (Ret u, w1, es)"
  shows "\<exists>b. actions es =
     [Exec ''/usr/bin/osascript'' [''-e'', ''output muted of (get volume settings)''],
      Publish (getTopicPrefix h @ ''/state/mute'') 0 False (FormatBool b)]"
  using assms unfolding updateMute_def
proof (cases rule: bind_cases)
  case (Returned b w2 es1 es2)
  from Returned(1) have "es1 = [Exec ''/usr/bin/osascript'' [''-e'', ''output muted of (get volume settings)'']]"
    by (rule getMuteStatus_facts(2)) simp
  with Returned show ?thesis
    by (auto simp: bind_def client_Publish_def log_Printf_def ret_def split: prog_splits)
qed simp_all

lemma publishers_published_volume:
  assumes "seq (updateVolume E h) (updateMute E h) w = (r, w1, es)"
  shows "published (getTopicPrefix h @ ''/state/volume'') es =
     (case getCurrentVolume E w of (Ret cur, w2, es2) \<Rightarrow> [Itoa cur] | (Exit, w2, es2) \<Rightarrow> [] | (Panic, w2, es2) \<Rightarrow> [])"
  using assms
  by (cases rule: seq_cases) (simp_all add: updateVolume_published updateMute_published_volume)

lemma publishers_actions:
  assumes "seq (updateVolume E h) (updateMute E h) w = (Ret u, w1, es)"
  shows "\<exists>cur b. actions es =
     [Exec ''/usr/bin/osascript'' [''-e'', ''output volume of (get volume settings)''],
      Publish (getTopicPrefix h @ ''/state/volume'') 0 False (Itoa cur),
      Exec ''/usr/bin/osascript'' [''-e'', ''output muted of (get volume settings)''],
      Publish (getTopicPrefix h @ ''/state/mute'') 0 False (FormatBool b)]"
  using assms
proof (cases rule: seq_cases)
  case (Returned a w2 es1 es2)
  from updateVolume_actions[OF Returned(1)] updateMute_actions[OF Returned(2)] Returned(3)
  show ?thesis by auto
qed simp_all

lemma mutate_publish_actions:
  assumes "seq (announce v msg)
             (seq (runCommand E name arg) (seq (settle v E) (seq (updateVolume E h) (updateMute E h)))) w
           = (Ret (), w', es)"
  shows "\<exists>cur b. actions es =
           [Exec name arg] @ settle_events v @
           [Exec ''/usr/bin/osascript'' [''-e'', ''output volume of (get volume settings)''],
            Publish (getTopicPrefix h @ ''/state/volume'') 0 False (Itoa cur),
            Exec ''/usr/bin/osascript'' [''-e'', ''output muted of (get volume settings)''],
            Publish (getTopicPrefix h @ ''/state/mute'') 0 False (FormatBool b)]"
  using assms
proof (cases rule: mutate_publish_cases)
  case (Published u w1 es1 es2)
  from Published(1) have "es1 = [Exec name arg]" by (rule runCommand_facts(4)) simp
  moreover from publishers_actions[OF Published(2)] obtain cur b where
    "actions es2 =
       [Exec ''/usr/bin/osascript'' [''-e'', ''output volume of (get volume settings)''],
        Publish (getTopicPrefix h @ ''/state/volume'') 0 False (Itoa cur),
        Exec ''/usr/bin/osascript'' [''-e'', ''output muted of (get volume settings)''],
        Publish (getTopicPrefix h @ ''/state/mute'') 0 False (FormatBool b)]" by blast
  ultimately show ?thesis using Published(3) by auto
qed simp_all

lemma ParseBool_forms:
  "(ParseBool s = None) =
     (s \<notin> set [''1'', ''t'', ''T'', ''true'', ''TRUE'', ''True'',
               ''0'', ''f'', ''F'', ''false'', ''FALSE'', ''False''])"
  by (simp add: ParseBool_def)

lemma Exec_not_in_receipt [simp]: "Exec name arg \<notin> set (receipt v msg)"
  by (cases v) (simp_all add: receipt_def)

text \<open>
  The power commands, both variants: after the receipt line, on the literal payload the
  handler runs \<open>act\<close>, after an acknowledgement publish and a sleep in \<^verbatim>\<open>main.go\<close>.
\<close>

lemma acknowledged_run:
  assumes "bind (client_Publish E t 0 False p) (\<lambda>token.
             seq (case token of TimedOut \<Rightarrow> log_Printf l1 | Failed e \<Rightarrow> log_Printf (l2 @ e) | Done \<Rightarrow> ret ())
            (seq (time_Sleep E 1) act)) w = (r, w', es)"
  shows "\<exists>w1 es0 es1. act w1 = (r, w', es1) \<and> es = es0 @ es1"
proof -
  from assms have "\<exists>tok w1 es1. broker E t 0 False p w = (tok, w1) \<and> act (pass E 1 w1) = (r, w', es1) \<and>
      es = (Publish t 0 False p #
            (case tok of TimedOut \<Rightarrow> [Log l1] | Failed e \<Rightarrow> [Log (l2 @ e)] | Done \<Rightarrow> []) @ [Sleep 1]) @ es1"
    by (auto simp: bind_def seq_def client_Publish_def log_Printf_def ret_def time_Sleep_def
        split: prog_splits)
  then show ?thesis by blast
qed

lemma callback_sleep:
  assumes "Topic msg = getTopicPrefix h @ ''/command/sleep''"
    and "callback v E h msg w = (r, w', es)"
  shows "if Payload msg = ''sleep''
         then \<exists>w1 es0 es1. commandSleep E w1 = (r, w', es1) \<and> es = es0 @ es1
         else r = Ret () \<and> w' = w \<and> es = receipt v msg"
proof (cases v)
  case Main_go
  show ?thesis
  proof (cases "Payload msg = ''sleep''")
    case True
    with assms Main_go have "bind
       (client_Publish E (getTopicPrefix h @ ''/state/sleep'') 0 False ''sleep_command_received'')
       (\<lambda>token.
           seq (case token of
                TimedOut \<Rightarrow> log_Printf ''Publish sleep status timed out after 5s''
                | Failed e \<Rightarrow> log_Printf (''Error publishing sleep status: '' @ e)
                | Done \<Rightarrow> ret ())
            (seq (time_Sleep E 1) (commandSleep E))) w = (r, w', es)"
      by (simp add: callback_def listen_callback_def seq_ret_left seq_ret_right)
    from acknowledged_run[OF this] True show ?thesis by simp
  next
    case False
    with assms Main_go show ?thesis
      by (simp add: callback_def listen_callback_def seq_ret_left seq_ret_right receipt_def ret_def)
  qed
next
  case Part_000
  show ?thesis
  proof (cases "Payload msg = ''sleep''")
    case True
    with assms Part_000 have "seq (announce v msg) (commandSleep E) w = (r, w', es)"
      by (simp add: callback_def listen_callback_part_000_def Let_def announce_def)
    then have "\<exists>es1. commandSleep E w = (r, w', es1) \<and> es = receipt v msg @ es1"
      by (cases rule: seq_cases) (auto simp: announce_eval)
    with True show ?thesis by auto
  next
    case False
    with assms Part_000 show ?thesis
      by (auto simp: callback_def listen_callback_part_000_def Let_def seq_def bind_def log_Println_def
          ret_def receipt_def)
  qed
qed

lemma callback_displaysleep:
  assumes "Topic msg = getTopicPrefix h @ ''/command/displaysleep''"
    and "callback v E h msg w = (r, w', es)"
  shows "if Payload msg = ''displaysleep''
         then \<exists>w1 es0 es1. commandDisplaySleep E w1 = (r, w', es1) \<and> es = es0 @ es1
         else r = Ret () \<and> w' = w \<and> es = receipt v msg"
proof (cases v)
  case Main_go
  show ?thesis
  proof (cases "Payload msg = ''displaysleep''")
    case True
    with assms Main_go have "bind
       (client_Publish E (getTopicPrefix h @ ''/state/displaysleep'') 0 False ''displaysleep_command_received'')
       (\<lambda>token.
           seq (case token of
                TimedOut \<Rightarrow> log_Printf ''Publish displaysleep status timed out after 5s''
                | Failed e \<Rightarrow> log_Printf (''Error publishing displaysleep status: '' @ e)
                | Done \<Rightarrow> ret ())
            (seq (time_Sleep E 1) (commandDisplaySleep E))) w = (r, w', es)"
      by (simp add: callback_def listen_callback_def seq_ret_left seq_ret_right)
    from acknowledged_run[OF this] True show ?thesis by simp
  next
    case False
    with assms Main_go show ?thesis
      by (simp add: callback_def listen_callback_def seq_ret_left seq_ret_right receipt_def ret_def)
  qed
next
  case Part_000
  show ?thesis
  proof (cases "Payload msg = ''displaysleep''")
    case True
    with assms Part_000 have "seq (announce v msg) (commandDisplaySleep E) w = (r, w', es)"
      by (simp add: callback_def listen_callback_part_000_def Let_def announce_def)
    then have "\<exists>es1. commandDisplaySleep E w = (r, w', es1) \<and> es = receipt v msg @ es1"
      by (cases rule: seq_cases) (auto simp: announce_eval)
    with True show ?thesis by auto
  next
    case False
    with assms Part_000 show ?thesis
      by (auto simp: callback_def listen_callback_part_000_def Let_def seq_def bind_def log_Println_def
          ret_def receipt_def)
  qed
qed

lemma callback_shutdown:
  assumes "Topic msg = getTopicPrefix h @ ''/command/shutdown''"
    and "callback v E h msg w = (r, w', es)"
  shows "if Payload msg = ''shutdown''
         then \<exists>w1 es0 es1. commandShutdown E w1 = (r, w', es1) \<and> es = es0 @ es1
         else r = Ret () \<and> w' = w \<and> es = receipt v msg"
proof (cases v)
  case Main_go
  show ?thesis
  proof (cases "Payload msg = ''shutdown''")
    case True
    with assms Main_go have "bind
       (client_Publish E (getTopicPrefix h @ ''/state/shutdown'') 0 False ''shutdown_command_received'')
       (\<lambda>token.
           seq (case token of
                TimedOut \<Rightarrow> log_Printf ''Publish shutdown status timed out after 5s''
                | Failed e \<Rightarrow> log_Printf (''Error publishing shutdown status: '' @ e)
                | Done \<Rightarrow> ret ())
            (seq (time_Sleep E 1) (commandShutdown E))) w = (r, w', es)"
      by (simp add: callback_def listen_callback_def seq_ret_left seq_ret_right)
    from acknowledged_run[OF this] True show ?thesis by simp
  next
    case False
    with assms Main_go show ?thesis
      by (simp add: callback_def listen_callback_def seq_ret_left seq_ret_right receipt_def ret_def)
  qed
next
  case Part_000
  show ?thesis
  proof (cases "Payload msg = ''shutdown''")
    case True
    with assms Part_000 have "seq (announce v msg) (commandShutdown E) w = (r, w', es)"
      by (simp add: callback_def listen_callback_part_000_def Let_def announce_def)
    then have "\<exists>es1. commandShutdown E w = (r, w', es1) \<and> es = receipt v msg @ es1"
      by (cases rule: seq_cases) (auto simp: announce_eval)
    with True show ?thesis by auto
  next
    case False
    with assms Part_000 show ?thesis
      by (auto simp: callback_def listen_callback_part_000_def Let_def seq_def bind_def log_Println_def
          ret_def receipt_def)
  qed
qed


lemma commandShutdown_first:
  assumes "commandShutdown E w = (r, w', es)"
  shows "Exec ''shutdown'' [''-h'', ''now''] \<in> set es \<or>
         Exec ''/usr/bin/osascript''
           [''-e'', ''tell app '' @ [CHR 0x22] @ ''System Events'' @ [CHR 0x22] @ '' to shut down''] \<in> set es"
  using assms
  by (auto simp: commandShutdown_def bind_def os_Getuid_def runCommand_eval split: prog_splits if_splits)

lemma publishes_simps [simp]:
  "publishes [] = []"
  "publishes (e # es) = (if is_Publish e then e # publishes es else publishes es)"
  "publishes (es @ es') = publishes es @ publishes es'"
  by (simp_all add: publishes_def)

lemma publishConfig_eval:
  "publishConfig E q component objectId cfg w =
     (case broker E (''homeassistant/'' @ component @ ''/'' @ objectId @ ''/config'') 0 True
             (json_Marshal q cfg) w of
        (tok, w1) \<Rightarrow>
          (Ret (), w1,
           [Publish (''homeassistant/'' @ component @ ''/'' @ objectId @ ''/config'') 0 True
              (json_Marshal q cfg),
            Log (case tok of
                   TimedOut \<Rightarrow> ''Publish config timed out after 5s''
                 | Failed e \<Rightarrow> ''Error publishing config: '' @ e
                 | Done \<Rightarrow> ''Published '' @ component @ '' config to '' @
                     ''homeassistant/'' @ component @ ''/'' @ objectId @ ''/config'')]))"
  by (simp add: publishConfig_def Let_def bind_def client_Publish_def log_Printf_def
      split: prod.splits token.splits)

lemma publishConfig_publishes:
  assumes "publishConfig E q component objectId cfg w = (r, w', es)"
  shows "r = Ret ()"
    and "publishes es =
      [Publish (''homeassistant/'' @ component @ ''/'' @ objectId @ ''/config'') 0 True (json_Marshal q cfg)]"
  using assms by (auto simp: publishConfig_eval split: prod.splits)

lemma seq_publishConfig:
  assumes "seq (publishConfig E q component objectId cfg) n w = (r, w', es)"
  shows "\<exists>w1 es1 es2. n w1 = (r, w', es2) \<and> es = es1 @ es2 \<and> publishes es1 =
      [Publish (''homeassistant/'' @ component @ ''/'' @ objectId @ ''/config'') 0 True (json_Marshal q cfg)]"
  using assms
proof (cases rule: seq_cases)
  case (Returned a w1 es1 es2)
  with publishConfig_publishes(2)[OF Returned(1)] show ?thesis by blast
next
  case Exited
  from publishConfig_publishes(1)[OF Exited(1)] show ?thesis by simp
next
  case Panicked
  from publishConfig_publishes(1)[OF Panicked(1)] show ?thesis by simp
qed

lemma discovery_run:
  assumes "publishHADiscoveryConfig E q hostname model w = (r, w', es)"
  shows "r = Ret () \<and> publishes es = map (discovery_publish q) (discovery_entities hostname model)"
  using assms unfolding publishHADiscoveryConfig_def
  apply -
  apply (drule seq_publishConfig, elim exE conjE)+
  apply (frule publishConfig_publishes(1))
  apply (drule publishConfig_publishes(2))
  apply (simp add: discovery_entities_def discovery_publish_def volumeNumberConfig_def
      muteSwitchConfig_def batteryConfig_def powerAdapterConfig_def sleepSwitchConfig_def
      displaySleepSwitchConfig_def shutdownSwitchConfig_def)
  done


lemma publishes_subset: "e \<in> set (publishes es) \<Longrightarrow> e \<in> set es"
  by (simp add: publishes_def)

lemma Itoa_0_100: "Itoa 0 = ''0''" "Itoa 100 = ''100''"
  by code_simp+

lemma retain_map_add: "retain e store = store ++ retain e Map.empty"
  by (cases e) (auto simp: map_add_def fun_eq_iff)

lemma fold_retain_map_add: "fold retain es store = store ++ fold retain es Map.empty"
proof (induction es arbitrary: store)
  case Nil
  show ?case by simp
next
  case (Cons e es)
  have "fold retain (e # es) store = retain e store ++ fold retain es Map.empty"
    using Cons.IH[of "retain e store"] by simp
  also have "\<dots> = store ++ (retain e Map.empty ++ fold retain es Map.empty)"
    using retain_map_add[of e store] by simp
  also have "\<dots> = store ++ fold retain (e # es) Map.empty"
    using Cons.IH[of "retain e Map.empty"] by simp
  finally show ?case .
qed

lemma fold_retain_twice: "fold retain es (fold retain es store) = fold retain es store"
proof -
  have idem: "(s ++ m) ++ m = s ++ m" for s m :: "string \<rightharpoonup> string"
    by (auto simp: map_add_def fun_eq_iff split: option.splits)
  have "fold retain es (fold retain es store) = (store ++ fold retain es Map.empty) ++ fold retain es Map.empty"
    using fold_retain_map_add[of es "fold retain es store"] fold_retain_map_add[of es store] by simp
  also have "\<dots> = store ++ fold retain es Map.empty" by (simp add: idem)
  finally show ?thesis using fold_retain_map_add[of es store] by simp
qed

lemma fold_retain_publishes: "fold retain (publishes es) store = fold retain es store"
proof (induction es arbitrary: store)
  case Nil
  show ?case by simp
next
  case (Cons e es)
  then show ?case by (cases e) simp_all
qed

lemma percent_not_digit [simp]: "\<not> is_digit CHR ''%''"
  by (simp add: is_digit_def)

lemma newline_not_digit [simp]: "\<not> is_digit (CHR 0x0A)"
  by (simp add: is_digit_def)

lemma has_percent_Cons: "has_percent (c # cs) = ((is_digit c \<and> (\<exists>r. cs = CHR ''%'' # r)) \<or> has_percent cs)"
  by (cases cs) auto

lemma run_then_percent:
  "takeWhile is_digit s \<noteq> [] \<Longrightarrow> dropWhile is_digit s = CHR ''%'' # r \<Longrightarrow> has_percent s"
proof (induction s)
  case Nil
  then show ?case by simp
next
  case (Cons c cs)
  show ?case
  proof (cases "is_digit c")
    case False
    with Cons.prems show ?thesis by simp
  next
    case True
    show ?thesis
    proof (cases "takeWhile is_digit cs = []")
      case True
      with \<open>is_digit c\<close> Cons.prems have "cs = CHR ''%'' # r"
        by (cases cs) (auto split: if_splits)
      with \<open>is_digit c\<close> show ?thesis by simp
    next
      case False
      with \<open>is_digit c\<close> Cons show ?thesis by (simp add: has_percent_Cons)
    qed
  qed
qed

lemma FindStringSubmatch_Cons:
  "FindStringSubmatch (c # cs) =
     (if takeWhile is_digit (c # cs) \<noteq> [] \<and>
         (case dropWhile is_digit (c # cs) of [] \<Rightarrow> False | r # _ \<Rightarrow> r = CHR ''%'')
      then Some [takeWhile is_digit (c # cs) @ ''%'', takeWhile is_digit (c # cs)]
      else FindStringSubmatch cs)"
  by (simp add: Let_def)

lemma FindStringSubmatch_None: "(FindStringSubmatch s = None) = (\<not> has_percent s)"
proof (induction s)
  case Nil
  show ?case by simp
next
  case (Cons c cs)
  show ?case
  proof (cases "takeWhile is_digit (c # cs) \<noteq> [] \<and>
                (case dropWhile is_digit (c # cs) of [] \<Rightarrow> False | r # _ \<Rightarrow> r = CHR ''%'')")
    case True
    then obtain r where "takeWhile is_digit (c # cs) \<noteq> []" "dropWhile is_digit (c # cs) = CHR ''%'' # r"
      by (auto split: list.splits)
    then have "has_percent (c # cs)" by (rule run_then_percent)
    moreover have "FindStringSubmatch (c # cs) \<noteq> None"
      by (subst FindStringSubmatch_Cons) (simp only: if_P[OF True] option.distinct not_False_eq_True)
    ultimately show ?thesis by simp
  next
    case False
    then have step: "FindStringSubmatch (c # cs) = FindStringSubmatch cs"
      by (subst FindStringSubmatch_Cons) (rule if_not_P)
    from False have "\<not> (is_digit c \<and> (\<exists>r. cs = CHR ''%'' # r))"
      by (auto split: if_splits)
    with step Cons.IH show ?thesis by (simp add: has_percent_Cons)
  qed
qed

lemma FindStringSubmatch_Some:
  "FindStringSubmatch s = Some m \<Longrightarrow>
     \<exists>ds. m = [ds @ ''%'', ds] \<and> ds \<noteq> [] \<and> list_all is_digit ds"
proof (induction s)
  case Nil
  then show ?case by simp
next
  case (Cons c cs)
  show ?case
  proof (cases "takeWhile is_digit (c # cs) \<noteq> [] \<and>
                (case dropWhile is_digit (c # cs) of [] \<Rightarrow> False | r # _ \<Rightarrow> r = CHR ''%'')")
    case True
    have "FindStringSubmatch (c # cs) =
        Some [takeWhile is_digit (c # cs) @ ''%'', takeWhile is_digit (c # cs)]"
      by (subst FindStringSubmatch_Cons) (rule if_P[OF True])
    with Cons.prems have "m = [takeWhile is_digit (c # cs) @ ''%'', takeWhile is_digit (c # cs)]"
      by (simp del: FindStringSubmatch.simps takeWhile.simps dropWhile.simps)
    moreover have "list_all is_digit (takeWhile is_digit (c # cs))"
      unfolding list_all_iff by (meson set_takeWhileD)
    ultimately show ?thesis using True by blast
  next
    case False
    then have "FindStringSubmatch (c # cs) = FindStringSubmatch cs"
      by (subst FindStringSubmatch_Cons) (rule if_not_P)
    with Cons.prems have "FindStringSubmatch cs = Some m"
      by (simp del: FindStringSubmatch.simps)
    then show ?thesis by (rule Cons.IH)
  qed
qed

lemma has_percent_snoc:
  "has_percent (xs @ [c]) = (has_percent xs \<or> (xs \<noteq> [] \<and> is_digit (last xs) \<and> c = CHR ''%''))"
  by (induction xs rule: has_percent.induct) auto

lemma has_percent_TrimSuffix: "has_percent (TrimSuffix out [CHR 0x0A]) = has_percent out"
proof (cases "out = [] \<or> last out \<noteq> CHR 0x0A")
  case True
  then have "TrimSuffix out [CHR 0x0A] = out"
    by (cases out rule: rev_cases) (auto simp: TrimSuffix_def)
  then show ?thesis by simp
next
  case False
  then obtain xs where out: "out = xs @ [CHR 0x0A]"
    by (cases out rule: rev_cases) auto
  then have "TrimSuffix out [CHR 0x0A] = xs" by (simp add: TrimSuffix_def)
  with out show ?thesis by (simp add: has_percent_snoc)
qed

lemma ReplaceAllString_empty_filter: "ReplaceAllString_empty s = filter in_class s"
proof (induction s rule: ReplaceAllString_empty.induct)
  case 1
  show ?case by simp
next
  case (2 c cs)
  show ?case
  proof (cases "in_class c")
    case True
    with 2 show ?thesis by simp
  next
    case False
    have "filter in_class (dropWhile (\<lambda>x. \<not> in_class x) cs) = filter in_class cs"
      by (induction cs) auto
    with False 2 show ?thesis by simp
  qed
qed

lemma getHostname_eval:
  "getHostname E w =
     (case machine_name E w of
        Inl err \<Rightarrow> (Exit, w, [Fatal (HostnameError err)])
      | Inr name \<Rightarrow> (Ret (filter in_class (takeWhile (\<lambda>c. c \<noteq> CHR ''.'') name)), w, []))"
  by (simp add: getHostname_def log_Fatal_def ret_def ReplaceAllString_empty_filter split: sum.splits)

lemma digit_char_is_digit: "d < 10 \<Longrightarrow> is_digit (digit_char d)"
  by (simp add: is_digit_def digit_char_def)

lemma digit_val_digit_char: "d < 10 \<Longrightarrow> digit_val (digit_char d) = int d"
  by (simp add: digit_val_def digit_char_def)

lemma digits_value_snoc: "digits_value n (cs @ [c]) = digits_value n cs * 10 + digit_val c"
  by (induction cs arbitrary: n) simp_all

lemma nat_digits_facts:
  "nat_digits n \<noteq> [] \<and> list_all is_digit (nat_digits n) \<and> digits_value 0 (nat_digits n) = int n"
proof (induction n rule: nat_digits.induct)
  case (1 n)
  show ?case
  proof (cases "n < 10")
    case True
    then show ?thesis
      by (simp add: nat_digits.simps[of n] digit_char_is_digit digit_val_digit_char)
  next
    case False
    with 1 have ih: "nat_digits (n div 10) \<noteq> []" "list_all is_digit (nat_digits (n div 10))"
      "digits_value 0 (nat_digits (n div 10)) = int (n div 10)" by simp_all
    have "n mod 10 < 10" by simp
    with False ih show ?thesis
      by (simp add: nat_digits.simps[of n] digit_char_is_digit digit_val_digit_char digits_value_snoc
          zdiv_int zmod_int)
  qed
qed

lemma hd_nat_digits: "is_digit (hd (nat_digits n))"
  using nat_digits_facts[of n] by (cases "nat_digits n") simp_all

lemma sign_not_digit [simp]: "\<not> is_digit CHR ''-''" "\<not> is_digit CHR ''+''"
  by (simp_all add: is_digit_def)

lemma Atoi_Itoa:
  "Atoi (Itoa i) = (if - (2 ^ 63) \<le> i \<and> i \<le> 2 ^ 63 - 1 then Some i else None)"
proof (cases "i < 0")
  case True
  from nat_digits_facts[of "nat (- i)"] True show ?thesis
    by (simp add: Atoi_def Itoa_def Let_def)
next
  case False
  obtain c cs where ds: "nat_digits (nat i) = c # cs"
    using nat_digits_facts[of "nat i"] by (cases "nat_digits (nat i)") auto
  from hd_nat_digits[of "nat i"] ds have "is_digit c" by simp
  then have "c \<noteq> CHR ''-''" "c \<noteq> CHR ''+''" by auto
  with nat_digits_facts[of "nat i"] False ds show ?thesis
    by (simp add: Atoi_def Itoa_def Let_def)
qed

section \<open>The claims\<close>

text \<open>
  C1. A valid volume command (the payload parses to an integer from 0 to 100) on the volume
  command topic, in either variant: what the handler publishes on the volume state topic
  is the decimal form of the value that \<^verbatim>\<open>getCurrentVolume\<close> reads from the host after
  \<^verbatim>\<open>setVolume\<close> returned (and, in \<^verbatim>\<open>part_000\<close>, after the settle delay), whatever the
  integer of the payload was. Exactly one such message is published when both host calls
  succeed; when one of them ends the process, none is.
\<close>

theorem volume_state_is_read_back:
  assumes "Topic msg = getTopicPrefix hostname @ ''/command/volume''"
    and "Atoi (Payload msg) = Some i" and "0 \<le> i" and "i \<le> 100"
    and "callback v E hostname msg w = (r, w', es)"
  shows "published (getTopicPrefix hostname @ ''/state/volume'') es =
           (case setVolume E i w of
              (Ret u, w1, es1) \<Rightarrow>
                (case getCurrentVolume E (settled v E w1) of
                   (Ret cur, w2, es2) \<Rightarrow> [Itoa cur]
                 | (Exit, w2, es2) \<Rightarrow> []
                 | (Panic, w2, es2) \<Rightarrow> [])
            | (Exit, w1, es1) \<Rightarrow> []
            | (Panic, w1, es1) \<Rightarrow> [])"
proof -
  from assms have "seq (announce v msg)
      (seq (setVolume E i) (seq (settle v E) (seq (updateVolume E hostname) (updateMute E hostname)))) w
      = (r, w', es)"
    by (simp add: callback_volume_msg)
  then show ?thesis
  proof (cases rule: mutate_publish_cases)
    case (Published u w1 es1 es2)
    from Published(1) have "published (getTopicPrefix hostname @ ''/state/volume'') es1 = []"
      unfolding setVolume_def by (rule runCommand_facts(1))
    with Published show ?thesis
      by (simp add: publishers_published_volume)
  next
    case (Exited es1)
    from Exited(1) have "published (getTopicPrefix hostname @ ''/state/volume'') es1 = []"
      unfolding setVolume_def by (rule runCommand_facts(1))
    with Exited show ?thesis by simp
  next
    case (Panicked es1)
    from Panicked(1) have "published (getTopicPrefix hostname @ ''/state/volume'') es1 = []"
      unfolding setVolume_def by (rule runCommand_facts(1))
    with Panicked show ?thesis by simp
  qed
qed

theorem volume_state_is_read_back_witness:
  "Atoi ''55'' = Some 55 \<and>
   published ''homeassistant/testhost/state/volume''
     (snd (snd (callback Part_000 stuck_host ''testhost''
        \<lparr>Topic = ''homeassistant/testhost/command/volume'', Payload = ''55''\<rparr> ()))) = [''42'']"
proof -
  let ?msg = "\<lparr>Topic = ''homeassistant/testhost/command/volume'', Payload = ''55''\<rparr>"
  have topic: "Topic ?msg = getTopicPrefix ''testhost'' @ ''/command/volume''" by code_simp
  have parse: "Atoi (Payload ?msg) = Some 55" by code_simp
  obtain r w' es where run: "callback Part_000 stuck_host ''testhost'' ?msg () = (r, w', es)"
    by (rule prod_cases3)
  have read: "(case setVolume stuck_host 55 () of
              (Ret u, w1, es1) \<Rightarrow>
                (case getCurrentVolume stuck_host (settled Part_000 stuck_host w1) of
                   (Ret cur, w2, es2) \<Rightarrow> [Itoa cur]
                 | (Exit, w2, es2) \<Rightarrow> []
                 | (Panic, w2, es2) \<Rightarrow> [])
            | (Exit, w1, es1) \<Rightarrow> []
            | (Panic, w1, es1) \<Rightarrow> []) = [''42'']"
    by code_simp
  from volume_state_is_read_back[OF topic parse _ _ run] read
  have "published (getTopicPrefix ''testhost'' @ ''/state/volume'') es = [''42'']" by simp
  with run parse show ?thesis by (simp add: getTopicPrefix_def)
qed

text \<open>
  C2. A payload on the volume command topic that is the decimal form of an integer below 0
  or above 100, or that \<^verbatim>\<open>strconv.Atoi\<close> does not parse to an integer from 0 to 100 for any
  other reason, in either variant: the handler returns with the world as it was,
  and all it did is write log lines, the last of them the rejection. No command was run
  (so \<^verbatim>\<open>setVolume\<close> was not called) and nothing was published.
\<close>

theorem invalid_volume_rejected:
  assumes "Topic msg = getTopicPrefix hostname @ ''/command/volume''"
    and "(\<exists>i. Payload msg = Itoa i \<and> (i < 0 \<or> 100 < i))
         \<or> \<not> (\<exists>i. Atoi (Payload msg) = Some i \<and> 0 \<le> i \<and> i \<le> 100)"
  shows "callback v E hostname msg w = (Ret (), w, receipt v msg @ [Log (rejection v ''volume'')])
       \<and> actions (receipt v msg @ [Log (rejection v ''volume'')]) = []"
proof -
  from assms(2) have "\<not> (\<exists>i. Atoi (Payload msg) = Some i \<and> 0 \<le> i \<and> i \<le> 100)"
    by (auto simp: Atoi_Itoa split: if_splits)
  with assms(1) show ?thesis
    by (auto simp: callback_volume_msg announce_then_log split: option.splits)
qed

theorem invalid_volume_rejected_witness:
  "Itoa 150 = ''150'' \<and> Atoi ''loud'' = None \<and>
   callback Main_go stuck_host ''testhost''
     \<lparr>Topic = ''homeassistant/testhost/command/volume'', Payload = ''150''\<rparr> ()
     = (Ret (), (), [Log ''Incorrect value'']) \<and>
   callback Part_000 stuck_host ''testhost''
     \<lparr>Topic = ''homeassistant/testhost/command/volume'', Payload = ''loud''\<rparr> ()
     = (Ret (), (),
        [Log ''Received command:  [ %s ] [ %s ] homeassistant/testhost/command/volume loud'',
         Log ''Incorrect volume value''])"
proof -
  have p1: "Itoa 150 = ''150''" and p2: "Atoi ''loud'' = None" by code_simp+
  have t: "Topic \<lparr>Topic = ''homeassistant/testhost/command/volume'', Payload = pl\<rparr>
             = getTopicPrefix ''testhost'' @ ''/command/volume''" for pl
    by (simp add: getTopicPrefix_def)
  have n1: "(\<exists>i. Payload \<lparr>Topic = ''homeassistant/testhost/command/volume'', Payload = ''150''\<rparr> = Itoa i \<and> (i < 0 \<or> 100 < i))
      \<or> \<not> (\<exists>i. Atoi (Payload \<lparr>Topic = ''homeassistant/testhost/command/volume'', Payload = ''150''\<rparr>) = Some i \<and> 0 \<le> i \<and> i \<le> 100)"
    using p1 by (intro disjI1 exI[of _ 150]) simp
  have n2: "(\<exists>i. Payload \<lparr>Topic = ''homeassistant/testhost/command/volume'', Payload = ''loud''\<rparr> = Itoa i \<and> (i < 0 \<or> 100 < i))
      \<or> \<not> (\<exists>i. Atoi (Payload \<lparr>Topic = ''homeassistant/testhost/command/volume'', Payload = ''loud''\<rparr>) = Some i \<and> 0 \<le> i \<and> i \<le> 100)"
    using p2 by simp
  from invalid_volume_rejected[OF t n1, of Main_go stuck_host "()"]
       invalid_volume_rejected[OF t n2, of Part_000 stuck_host "()"] p1 p2
  show ?thesis by (simp add: receipt_def rejection_def)
qed

text \<open>
  C3, as amended. A volume or mute command that is accepted and whose handler returns: apart
  from log lines, the handler runs the mutator's command first and then the volume read,
  the volume publish, the mute read and the mute publish, in this order. Between the
  mutator and the publishers \<^verbatim>\<open>part_000\<close> sleeps one second; \<^verbatim>\<open>main.go\<close> does not sleep.
\<close>

theorem mutator_then_publishers:
  assumes "callback v E hostname msg w = (Ret (), w', es)"
  shows "(Topic msg = getTopicPrefix hostname @ ''/command/volume'' \<and>
          Atoi (Payload msg) = Some i \<and> 0 \<le> i \<and> i \<le> 100 \<longrightarrow>
            (\<exists>cur b. actions es =
               [Exec ''/usr/bin/osascript'' [''-e'', ''set volume output volume '' @ Itoa i]]
               @ settle_events v @
               [Exec ''/usr/bin/osascript'' [''-e'', ''output volume of (get volume settings)''],
                Publish (getTopicPrefix hostname @ ''/state/volume'') 0 False (Itoa cur),
                Exec ''/usr/bin/osascript'' [''-e'', ''output muted of (get volume settings)''],
                Publish (getTopicPrefix hostname @ ''/state/mute'') 0 False (FormatBool b)]))
       \<and> (Topic msg = getTopicPrefix hostname @ ''/command/mute'' \<and>
          ParseBool (Payload msg) = Some m \<longrightarrow>
            (\<exists>cur b. actions es =
               [Exec ''/usr/bin/osascript'' [''-e'', ''set volume output muted '' @ FormatBool m]]
               @ settle_events v @
               [Exec ''/usr/bin/osascript'' [''-e'', ''output volume of (get volume settings)''],
                Publish (getTopicPrefix hostname @ ''/state/volume'') 0 False (Itoa cur),
                Exec ''/usr/bin/osascript'' [''-e'', ''output muted of (get volume settings)''],
                Publish (getTopicPrefix hostname @ ''/state/mute'') 0 False (FormatBool b)]))
       \<and> settle_events Main_go = [] \<and> settle_events Part_000 = [Sleep 1]"
proof (intro conjI impI)
  assume a: "Topic msg = getTopicPrefix hostname @ ''/command/volume'' \<and>
          Atoi (Payload msg) = Some i \<and> 0 \<le> i \<and> i \<le> 100"
  with assms have "seq (announce v msg)
      (seq (runCommand E ''/usr/bin/osascript'' [''-e'', ''set volume output volume '' @ Itoa i])
        (seq (settle v E) (seq (updateVolume E hostname) (updateMute E hostname)))) w = (Ret (), w', es)"
    by (simp add: callback_volume_msg setVolume_def)
  then show "\<exists>cur b. actions es =
               [Exec ''/usr/bin/osascript'' [''-e'', ''set volume output volume '' @ Itoa i]]
               @ settle_events v @
               [Exec ''/usr/bin/osascript'' [''-e'', ''output volume of (get volume settings)''],
                Publish (getTopicPrefix hostname @ ''/state/volume'') 0 False (Itoa cur),
                Exec ''/usr/bin/osascript'' [''-e'', ''output muted of (get volume settings)''],
                Publish (getTopicPrefix hostname @ ''/state/mute'') 0 False (FormatBool b)]"
    by (rule mutate_publish_actions)
next
  assume a: "Topic msg = getTopicPrefix hostname @ ''/command/mute'' \<and> ParseBool (Payload msg) = Some m"
  with assms have "seq (announce v msg)
      (seq (runCommand E ''/usr/bin/osascript'' [''-e'', ''set volume output muted '' @ FormatBool m])
        (seq (settle v E) (seq (updateVolume E hostname) (updateMute E hostname)))) w = (Ret (), w', es)"
    by (simp add: callback_mute_msg setMute_def)
  then show "\<exists>cur b. actions es =
               [Exec ''/usr/bin/osascript'' [''-e'', ''set volume output muted '' @ FormatBool m]]
               @ settle_events v @
               [Exec ''/usr/bin/osascript'' [''-e'', ''output volume of (get volume settings)''],
                Publish (getTopicPrefix hostname @ ''/state/volume'') 0 False (Itoa cur),
                Exec ''/usr/bin/osascript'' [''-e'', ''output muted of (get volume settings)''],
                Publish (getTopicPrefix hostname @ ''/state/mute'') 0 False (FormatBool b)]"
    by (rule mutate_publish_actions)
qed (simp_all add: settle_events_def)


theorem mutator_then_publishers_witness:
  "\<exists>cur b. actions (snd (snd (callback Part_000 stuck_host ''testhost''
       \<lparr>Topic = ''homeassistant/testhost/command/volume'', Payload = ''55''\<rparr> ()))) =
     [Exec ''/usr/bin/osascript'' [''-e'', ''set volume output volume 55''],
      Sleep 1,
      Exec ''/usr/bin/osascript'' [''-e'', ''output volume of (get volume settings)''],
      Publish ''homeassistant/testhost/state/volume'' 0 False (Itoa cur),
      Exec ''/usr/bin/osascript'' [''-e'', ''output muted of (get volume settings)''],
      Publish ''homeassistant/testhost/state/mute'' 0 False (FormatBool b)]"
proof -
  let ?msg = "\<lparr>Topic = ''homeassistant/testhost/command/volume'', Payload = ''55''\<rparr>"
  have run: "callback Part_000 stuck_host ''testhost'' ?msg () =
      (Ret (), (), snd (snd (callback Part_000 stuck_host ''testhost'' ?msg ())))"
    by code_simp
  have hyp: "Topic ?msg = getTopicPrefix ''testhost'' @ ''/command/volume'' \<and>
      Atoi (Payload ?msg) = Some 55 \<and> (0::int) \<le> 55 \<and> (55::int) \<le> 100"
    by code_simp
  have itoa: "Itoa 55 = ''55''" by code_simp
  from mutator_then_publishers[OF run, of 55 True] hyp itoa show ?thesis
    by (simp add: settle_events_def getTopicPrefix_def)
qed

text \<open>
  The claim as stated fails on \<^verbatim>\<open>src/main.go\<close>: the publishers follow the mutator at once.
\<close>

theorem settle_delay_counterexample:
  "listen_callback stuck_host ''testhost''
     \<lparr>Topic = ''homeassistant/testhost/command/volume'', Payload = ''55''\<rparr> () =
   (Ret (), (),
     [Exec ''/usr/bin/osascript'' [''-e'', ''set volume output volume 55''],
      Exec ''/usr/bin/osascript'' [''-e'', ''output volume of (get volume settings)''],
      Publish ''homeassistant/testhost/state/volume'' 0 False ''42'',
      Exec ''/usr/bin/osascript'' [''-e'', ''output muted of (get volume settings)''],
      Publish ''homeassistant/testhost/state/mute'' 0 False ''false''])
   \<and> Sleep 1 \<notin> set (snd (snd (listen_callback stuck_host ''testhost''
     \<lparr>Topic = ''homeassistant/testhost/command/volume'', Payload = ''55''\<rparr> ())))"
  by code_simp

text \<open>
  C4, as amended. A payload on the mute command topic is accepted exactly when it is one of
  the twelve forms that \<^verbatim>\<open>strconv.ParseBool\<close> knows; then the first thing the handler does
  after its receipt line is to run the command of \<^verbatim>\<open>setMute\<close>. Every other payload is
  rejected: the handler returns with the world as it was and has only written log lines.
\<close>

theorem mute_payload_forms:
  assumes "Topic msg = getTopicPrefix hostname @ ''/command/mute''"
    and "callback v E hostname msg w = (r, w', es)"
  shows "if Payload msg \<in> set [''1'', ''t'', ''T'', ''true'', ''TRUE'', ''True'',
                               ''0'', ''f'', ''F'', ''false'', ''FALSE'', ''False'']
         then \<exists>b rest. ParseBool (Payload msg) = Some b \<and>
                es = receipt v msg @
                     Exec ''/usr/bin/osascript'' [''-e'', ''set volume output muted '' @ FormatBool b] # rest
         else r = Ret () \<and> w' = w \<and> es = receipt v msg @ [Log (rejection v ''mute'')]"
proof (cases "ParseBool (Payload msg)")
  case None
  with assms have "(r, w', es) = (Ret (), w, receipt v msg @ [Log (rejection v ''mute'')])"
    by (simp add: callback_mute_msg announce_then_log)
  moreover from None have "Payload msg \<notin> set [''1'', ''t'', ''T'', ''true'', ''TRUE'', ''True'',
                               ''0'', ''f'', ''F'', ''false'', ''FALSE'', ''False'']"
    unfolding ParseBool_forms[symmetric] .
  ultimately show ?thesis by (simp only: if_False prod.inject) 
next
  case (Some b)
  with assms have run: "seq (announce v msg)
      (seq (setMute E b) (seq (settle v E) (seq (updateVolume E hostname) (updateMute E hostname)))) w
      = (r, w', es)"
    by (simp add: callback_mute_msg)
  have "\<exists>rest. es = receipt v msg @
          Exec ''/usr/bin/osascript'' [''-e'', ''set volume output muted '' @ FormatBool b] # rest"
    using run
  proof (cases rule: mutate_publish_cases)
    case (Published u w1 es1 es2)
    from runCommand_facts(3)[OF Published(1)[unfolded setMute_def]] Published(3)
    show ?thesis by auto
  next
    case (Exited es1)
    from runCommand_facts(3)[OF Exited(1)[unfolded setMute_def]] Exited(3)
    show ?thesis by auto
  next
    case (Panicked es1)
    from runCommand_facts(3)[OF Panicked(1)[unfolded setMute_def]] Panicked(3)
    show ?thesis by auto
  qed
  moreover have "Payload msg \<in> set [''1'', ''t'', ''T'', ''true'', ''TRUE'', ''True'',
                               ''0'', ''f'', ''F'', ''false'', ''FALSE'', ''False'']"
  proof (rule ccontr)
    assume "Payload msg \<notin> set [''1'', ''t'', ''T'', ''true'', ''TRUE'', ''True'',
                               ''0'', ''f'', ''F'', ''false'', ''FALSE'', ''False'']"
    then have "ParseBool (Payload msg) = None" unfolding ParseBool_forms[symmetric] .
    with Some show False by simp
  qed
  ultimately show ?thesis using Some by (simp only: if_True) blast
qed

text \<open>
  The claim as stated fails: \<^verbatim>\<open>"1"\<close> and \<^verbatim>\<open>"F"\<close> are neither \<^verbatim>\<open>"true"\<close> nor \<^verbatim>\<open>"false"\<close>, and
  \<^verbatim>\<open>setMute\<close> runs.
\<close>

theorem mute_payload_forms_counterexample:
  "''1'' \<noteq> ''true'' \<and> ''1'' \<noteq> ''false'' \<and>
   listen_callback stuck_host ''testhost''
     \<lparr>Topic = ''homeassistant/testhost/command/mute'', Payload = ''1''\<rparr> () =
   (Ret (), (),
     [Exec ''/usr/bin/osascript'' [''-e'', ''set volume output muted true''],
      Exec ''/usr/bin/osascript'' [''-e'', ''output volume of (get volume settings)''],
      Publish ''homeassistant/testhost/state/volume'' 0 False ''42'',
      Exec ''/usr/bin/osascript'' [''-e'', ''output muted of (get volume settings)''],
      Publish ''homeassistant/testhost/state/mute'' 0 False ''false''])
   \<and> listen_callback_part_000 stuck_host ''testhost''
     \<lparr>Topic = ''homeassistant/testhost/command/mute'', Payload = ''F''\<rparr> () =
   (Ret (), (),
     [Log ''Received command:  [ %s ] [ %s ] homeassistant/testhost/command/mute F'',
      Exec ''/usr/bin/osascript'' [''-e'', ''set volume output muted false''],
      Sleep 1,
      Exec ''/usr/bin/osascript'' [''-e'', ''output volume of (get volume settings)''],
      Publish ''homeassistant/testhost/state/volume'' 0 False ''42'',
      Exec ''/usr/bin/osascript'' [''-e'', ''output muted of (get volume settings)''],
      Publish ''homeassistant/testhost/state/mute'' 0 False ''false''])"
  by code_simp

theorem mute_payload_forms_witness:
  "(\<exists>b rest. ParseBool ''TRUE'' = Some b \<and>
      snd (snd (callback Main_go stuck_host ''testhost''
         \<lparr>Topic = ''homeassistant/testhost/command/mute'', Payload = ''TRUE''\<rparr> ())) =
      Exec ''/usr/bin/osascript'' [''-e'', ''set volume output muted '' @ FormatBool b] # rest)
   \<and> callback Part_000 stuck_host ''testhost''
         \<lparr>Topic = ''homeassistant/testhost/command/mute'', Payload = ''notabool''\<rparr> () =
       (Ret (), (),
        [Log ''Received command:  [ %s ] [ %s ] homeassistant/testhost/command/mute notabool'',
         Log ''Incorrect mute value''])"
proof -
  let ?m1 = "\<lparr>Topic = ''homeassistant/testhost/command/mute'', Payload = ''TRUE''\<rparr>"
  let ?m2 = "\<lparr>Topic = ''homeassistant/testhost/command/mute'', Payload = ''notabool''\<rparr>"
  have t: "Topic \<lparr>Topic = ''homeassistant/testhost/command/mute'', Payload = pl\<rparr>
             = getTopicPrefix ''testhost'' @ ''/command/mute''" for pl
    by (simp add: getTopicPrefix_def)
  obtain r1 w1 es1 where run1: "callback Main_go stuck_host ''testhost'' ?m1 () = (r1, w1, es1)"
    by (rule prod_cases3)
  obtain r2 w2 es2 where run2: "callback Part_000 stuck_host ''testhost'' ?m2 () = (r2, w2, es2)"
    by (rule prod_cases3)
  from mute_payload_forms[OF t run1] mute_payload_forms[OF t run2] run1 run2
  show ?thesis by (simp add: receipt_def rejection_def)
qed


text \<open>
  C5. A message on the sleep, display-sleep or shutdown command topic, in either variant:
  the external command of the host action is run exactly when the payload equals the
  literal of the topic (\<^verbatim>\<open>sleep\<close>, \<^verbatim>\<open>displaysleep\<close>, \<^verbatim>\<open>shutdown\<close>). On any other payload the
  handler returns with the world as it was, having run and published nothing and logged no
  rejection: \<^verbatim>\<open>main.go\<close> leaves no event at all, \<^verbatim>\<open>part_000\<close> only the receipt line that it
  writes for every message before it looks at the topic.
\<close>

theorem power_commands_exact_literal:
  assumes "(name, acts) \<in> set power_commands"
    and "Topic msg = getTopicPrefix hostname @ ''/command/'' @ name"
    and "callback v E hostname msg w = (r, w', es)"
  shows "((\<exists>a \<in> set acts. a \<in> set es) \<longleftrightarrow> Payload msg = name)
       \<and> (Payload msg \<noteq> name \<longrightarrow> r = Ret () \<and> w' = w \<and> es = receipt v msg)"
proof -
  from assms(1) consider
      (sleep) "name = ''sleep''" "acts = [Exec ''pmset'' [''sleepnow'']]"
    | (displaysleep) "name = ''displaysleep''" "acts = [Exec ''pmset'' [''displaysleepnow'']]"
    | (shutdown) "name = ''shutdown''"
        "acts = [Exec ''shutdown'' [''-h'', ''now''],
                 Exec ''/usr/bin/osascript''
                   [''-e'', ''tell app '' @ [CHR 0x22] @ ''System Events'' @ [CHR 0x22] @ '' to shut down'']]"
    by (auto simp: power_commands_def)
  then show ?thesis
  proof cases
    case sleep
    with assms(2) have t: "Topic msg = getTopicPrefix hostname @ ''/command/sleep''" by simp
    show ?thesis
    proof (cases "Payload msg = ''sleep''")
      case True
      with callback_sleep[OF t assms(3)] obtain w1 es0 es1 where
        "commandSleep E w1 = (r, w', es1)" "es = es0 @ es1" by auto
      with runCommand_facts(3)[of E "''pmset''" "[''sleepnow'']" w1 r w' es1] True sleep
      show ?thesis by (auto simp: commandSleep_def)
    next
      case False
      with callback_sleep[OF t assms(3)] sleep show ?thesis by simp
    qed
  next
    case displaysleep
    with assms(2) have t: "Topic msg = getTopicPrefix hostname @ ''/command/displaysleep''" by simp
    show ?thesis
    proof (cases "Payload msg = ''displaysleep''")
      case True
      with callback_displaysleep[OF t assms(3)] obtain w1 es0 es1 where
        "commandDisplaySleep E w1 = (r, w', es1)" "es = es0 @ es1" by auto
      with runCommand_facts(3)[of E "''pmset''" "[''displaysleepnow'']" w1 r w' es1] True displaysleep
      show ?thesis by (auto simp: commandDisplaySleep_def)
    next
      case False
      with callback_displaysleep[OF t assms(3)] displaysleep show ?thesis by simp
    qed
  next
    case shutdown
    with assms(2) have t: "Topic msg = getTopicPrefix hostname @ ''/command/shutdown''" by simp
    show ?thesis
    proof (cases "Payload msg = ''shutdown''")
      case True
      with callback_shutdown[OF t assms(3)] obtain w1 es0 es1 where
        run: "commandShutdown E w1 = (r, w', es1)" and es: "es = es0 @ es1" by auto
      from commandShutdown_first[OF run] es True shutdown
      show ?thesis by auto
    next
      case False
      with callback_shutdown[OF t assms(3)] shutdown show ?thesis by simp
    qed
  qed
qed

theorem power_commands_exact_literal_witness:
  "(''shutdown'',
      [Exec ''shutdown'' [''-h'', ''now''],
       Exec ''/usr/bin/osascript''
         [''-e'', ''tell app '' @ [CHR 0x22] @ ''System Events'' @ [CHR 0x22] @ '' to shut down'']])
     \<in> set power_commands
   \<and> Exec ''/usr/bin/osascript''
         [''-e'', ''tell app '' @ [CHR 0x22] @ ''System Events'' @ [CHR 0x22] @ '' to shut down'']
       \<in> set (snd (snd (callback Main_go stuck_host ''testhost''
            \<lparr>Topic = ''homeassistant/testhost/command/shutdown'', Payload = ''shutdown''\<rparr> ())))
   \<and> callback Main_go stuck_host ''testhost''
         \<lparr>Topic = ''homeassistant/testhost/command/shutdown'', Payload = ''Shutdown''\<rparr> ()
       = (Ret (), (), [])
   \<and> callback Part_000 stuck_host ''testhost''
         \<lparr>Topic = ''homeassistant/testhost/command/shutdown'', Payload = ''sleep''\<rparr> ()
       = (Ret (), (),
          [Log ''Received command:  [ %s ] [ %s ] homeassistant/testhost/command/shutdown sleep''])"
proof -
  let ?acts = "[Exec ''shutdown'' [''-h'', ''now''],
       Exec ''/usr/bin/osascript''
         [''-e'', ''tell app '' @ [CHR 0x22] @ ''System Events'' @ [CHR 0x22] @ '' to shut down'']]"
  have mem: "(''shutdown'', ?acts) \<in> set power_commands" by (simp add: power_commands_def)
  have t: "Topic \<lparr>Topic = ''homeassistant/testhost/command/shutdown'', Payload = pl\<rparr>
             = getTopicPrefix ''testhost'' @ ''/command/'' @ ''shutdown''" for pl
    by (simp add: getTopicPrefix_def)
  obtain r1 w1 es1 where run1: "callback Main_go stuck_host ''testhost''
      \<lparr>Topic = ''homeassistant/testhost/command/shutdown'', Payload = ''shutdown''\<rparr> () = (r1, w1, es1)"
    by (rule prod_cases3)
  obtain r2 w2 es2 where run2: "callback Main_go stuck_host ''testhost''
      \<lparr>Topic = ''homeassistant/testhost/command/shutdown'', Payload = ''Shutdown''\<rparr> () = (r2, w2, es2)"
    by (rule prod_cases3)
  obtain r3 w3 es3 where run3: "callback Part_000 stuck_host ''testhost''
      \<lparr>Topic = ''homeassistant/testhost/command/shutdown'', Payload = ''sleep''\<rparr> () = (r3, w3, es3)"
    by (rule prod_cases3)
  have noroot: "Exec ''shutdown'' [''-h'', ''now''] \<notin> set (snd (snd (callback Main_go stuck_host ''testhost''
      \<lparr>Topic = ''homeassistant/testhost/command/shutdown'', Payload = ''shutdown''\<rparr> ())))"
    by code_simp
  from power_commands_exact_literal[OF mem t run1] noroot run1
  have one: "Exec ''/usr/bin/osascript''
         [''-e'', ''tell app '' @ [CHR 0x22] @ ''System Events'' @ [CHR 0x22] @ '' to shut down'']
       \<in> set es1" by simp
  from power_commands_exact_literal[OF mem t run2] run2
  have two: "(r2, w2, es2) = (Ret (), (), [])" by (simp add: receipt_def)
  from power_commands_exact_literal[OF mem t run3] run3
  have three: "(r3, w3, es3) = (Ret (), (),
          [Log ''Received command:  [ %s ] [ %s ] homeassistant/testhost/command/shutdown sleep''])"
    by (simp add: receipt_def)
  from mem one two three run1 run2 run3 show ?thesis by simp
qed


text \<open>
  C6. The discovery pass of \<^verbatim>\<open>src/main.go\<close> always returns, and its publishes are, in order,
  one retained message per descriptor on \<^verbatim>\<open>homeassistant/<component>/<unique id>/config\<close>
  carrying the serialised descriptor. For the host identity \<^verbatim>\<open>testhost\<close> the volume entity is
  published on \<^verbatim>\<open>homeassistant/number/testhost_volume/config\<close>, and its descriptor is
  serialised with \<^verbatim>\<open>unique_id\<close> \<^verbatim>\<open>testhost_volume\<close>, \<^verbatim>\<open>min\<close> 0 and \<^verbatim>\<open>max\<close> 100.
\<close>

theorem discovery_topics:
  assumes "publishHADiscoveryConfig E q hostname model w = (r, w', es)"
  shows "r = Ret ()
       \<and> publishes es = map (discovery_publish q) (discovery_entities hostname model)
       \<and> (\<forall>(kind, cfg) \<in> set (discovery_entities hostname model).
            Publish (''homeassistant/'' @ kind @ ''/'' @ unique_id cfg @ ''/config'') 0 True
              (json_Marshal q cfg) \<in> set es)
       \<and> (hostname = ''testhost'' \<longrightarrow>
            Publish ''homeassistant/number/testhost_volume/config'' 0 True
              (json_object q
                 [(''name'', q ''testhost Volume''),
                  (''command_topic'', q ''homeassistant/testhost/command/volume''),
                  (''state_topic'', q ''homeassistant/testhost/state/volume''),
                  (''unique_id'', q ''testhost_volume''),
                  (''min'', ''0''),
                  (''max'', ''100''),
                  (''device'', json_object q
                     [(''identifiers'', json_array [q ''testhost'']),
                      (''name'', q ''testhost''),
                      (''manufacturer'', q ''Apple''),
                      (''model'', q model)])]) \<in> set es)"
proof -
  from discovery_run[OF assms] have r: "r = Ret ()"
    and ps: "publishes es = map (discovery_publish q) (discovery_entities hostname model)" by simp_all
  have all: "\<forall>(kind, cfg) \<in> set (discovery_entities hostname model).
            Publish (''homeassistant/'' @ kind @ ''/'' @ unique_id cfg @ ''/config'') 0 True
              (json_Marshal q cfg) \<in> set es"
  proof (clarify)
    fix kind cfg assume "(kind, cfg) \<in> set (discovery_entities hostname model)"
    then have "discovery_publish q (kind, cfg) \<in> set (publishes es)" unfolding ps by simp
    then show "Publish (''homeassistant/'' @ kind @ ''/'' @ unique_id cfg @ ''/config'') 0 True
              (json_Marshal q cfg) \<in> set es"
      by (simp add: discovery_publish_def publishes_subset)
  qed
  have "(''number'', Number (volumeNumberConfig hostname model)) \<in> set (discovery_entities hostname model)"
    by (simp add: discovery_entities_def)
  with all have "Publish (''homeassistant/'' @ ''number'' @ ''/'' @ unique_id (Number (volumeNumberConfig hostname model)) @ ''/config'') 0 True
              (json_Marshal q (Number (volumeNumberConfig hostname model))) \<in> set es" by blast
  then have "hostname = ''testhost'' \<Longrightarrow>
            Publish ''homeassistant/number/testhost_volume/config'' 0 True
              (json_object q
                 [(''name'', q ''testhost Volume''),
                  (''command_topic'', q ''homeassistant/testhost/command/volume''),
                  (''state_topic'', q ''homeassistant/testhost/state/volume''),
                  (''unique_id'', q ''testhost_volume''),
                  (''min'', ''0''),
                  (''max'', ''100''),
                  (''device'', json_object q
                     [(''identifiers'', json_array [q ''testhost'']),
                      (''name'', q ''testhost''),
                      (''manufacturer'', q ''Apple''),
                      (''model'', q model)])]) \<in> set es"
    by (simp add: volumeNumberConfig_def json_Marshal_def device_def Device_fields_def
        getTopicPrefix_def Itoa_0_100)
  with r ps all show ?thesis by blast
qed

theorem discovery_topics_witness:
  \<open>Publish ''homeassistant/number/testhost_volume/config'' 0 True
     ''{"name":"testhost Volume","command_topic":"homeassistant/testhost/command/volume","state_topic":"homeassistant/testhost/state/volume","unique_id":"testhost_volume","min":0,"max":100,"device":{"identifiers":["testhost"],"name":"testhost","manufacturer":"Apple","model":"testhost"}}''
   \<in> set (snd (snd (publishHADiscoveryConfig stuck_host (\<lambda>s. [CHR 0x22] @ s @ [CHR 0x22])
                      ''testhost'' ''testhost'' ())))\<close>
proof -
  obtain r w' es where run:
    "publishHADiscoveryConfig stuck_host (\<lambda>s. [CHR 0x22] @ s @ [CHR 0x22]) ''testhost'' ''testhost'' ()
       = (r, w', es)"
    by (rule prod_cases3)
  from discovery_topics[OF run] run show ?thesis
    by (simp add: json_object_def json_array_def)
qed


text \<open>
  C7. Two discovery passes with the same host identity and model, started in any two states
  of the world (the second pass may see a different broker than the first): both publish
  the same messages, topic by topic and byte by byte, and the retained messages of the
  broker after the second pass are those after the first.
\<close>

theorem discovery_idempotent:
  assumes "publishHADiscoveryConfig E q hostname model w1 = (r1, w1', es1)"
    and "publishHADiscoveryConfig E q hostname model w2 = (r2, w2', es2)"
  shows "publishes es2 = publishes es1
       \<and> retained_store (es1 @ es2) store = retained_store es1 store"
proof -
  from discovery_run[OF assms(1)] discovery_run[OF assms(2)]
  have same: "publishes es2 = publishes es1" by simp
  have "retained_store (es1 @ es2) store = fold retain es2 (fold retain es1 store)"
    by (simp add: retained_store_def)
  also have "\<dots> = fold retain (publishes es2) (fold retain es1 store)"
    by (simp add: fold_retain_publishes)
  also have "\<dots> = fold retain es1 (fold retain es1 store)"
    by (simp add: same fold_retain_publishes)
  also have "\<dots> = retained_store es1 store"
    by (simp add: fold_retain_twice retained_store_def)
  finally show ?thesis using same by simp
qed

theorem discovery_idempotent_witness:
  "snd (snd (publishHADiscoveryConfig flaky_host (\<lambda>s. [CHR 0x22] @ s @ [CHR 0x22]) ''testhost'' ''testhost'' 7))
     \<noteq> snd (snd (publishHADiscoveryConfig flaky_host (\<lambda>s. [CHR 0x22] @ s @ [CHR 0x22]) ''testhost'' ''testhost'' 0))
   \<and> publishes (snd (snd (publishHADiscoveryConfig flaky_host (\<lambda>s. [CHR 0x22] @ s @ [CHR 0x22]) ''testhost'' ''testhost'' 7)))
     = publishes (snd (snd (publishHADiscoveryConfig flaky_host (\<lambda>s. [CHR 0x22] @ s @ [CHR 0x22]) ''testhost'' ''testhost'' 0)))
   \<and> fst (snd (publishHADiscoveryConfig flaky_host (\<lambda>s. [CHR 0x22] @ s @ [CHR 0x22]) ''testhost'' ''testhost'' 0)) = 7"
proof -
  let ?q = "\<lambda>s. [CHR 0x22] @ s @ [CHR 0x22]"
  obtain r1 w1 es1 where run1:
    "publishHADiscoveryConfig flaky_host ?q ''testhost'' ''testhost'' 0 = (r1, w1, es1)"
    by (rule prod_cases3)
  obtain r2 w2 es2 where run2:
    "publishHADiscoveryConfig flaky_host ?q ''testhost'' ''testhost'' 7 = (r2, w2, es2)"
    by (rule prod_cases3)
  have differ: "hd (tl (snd (snd (publishHADiscoveryConfig flaky_host ?q ''testhost'' ''testhost'' 7))))
     \<noteq> hd (tl (snd (snd (publishHADiscoveryConfig flaky_host ?q ''testhost'' ''testhost'' 0))))"
    by code_simp
  have world: "fst (snd (publishHADiscoveryConfig flaky_host ?q ''testhost'' ''testhost'' 0)) = 7"
    by code_simp
  from differ have "snd (snd (publishHADiscoveryConfig flaky_host ?q ''testhost'' ''testhost'' 7))
     \<noteq> snd (snd (publishHADiscoveryConfig flaky_host ?q ''testhost'' ''testhost'' 0))"
    by auto
  with discovery_idempotent[OF run1 run2] run1 run2 world show ?thesis by simp
qed


text \<open>
  C10. When \<^verbatim>\<open>pmset -g batt\<close> succeeds with an output in which no digit is directly followed
  by a percent sign, \<^verbatim>\<open>getBatteryInfo\<close> does not return: it panics on the index into the nil
  match, and so does \<^verbatim>\<open>updateBattery\<close>, before anything is published. When the output has
  such a place, \<^verbatim>\<open>getBatteryInfo\<close> returns and the percent string is a non-empty run of
  decimal digits.
\<close>

theorem battery_read_without_percent_panics:
  assumes "run E ''/usr/bin/pmset'' [''-g'', ''batt''] w = (Inr out, w1)"
  shows "(\<not> has_percent out \<longrightarrow>
            getBatteryInfo E w = (Panic, w1, [Exec ''/usr/bin/pmset'' [''-g'', ''batt'']])
          \<and> updateBattery E hostname w = (Panic, w1, [Exec ''/usr/bin/pmset'' [''-g'', ''batt'']]))
       \<and> (has_percent out \<longrightarrow>
            (\<exists>percent isCharging.
               getBatteryInfo E w =
                 (Ret (percent, isCharging), w1, [Exec ''/usr/bin/pmset'' [''-g'', ''batt'']])
               \<and> percent \<noteq> [] \<and> list_all is_digit percent))"
proof (intro conjI impI)
  assume no: "\<not> has_percent out"
  then have "FindStringSubmatch (TrimSuffix out [CHR 0x0A]) = None"
    by (simp add: FindStringSubmatch_None has_percent_TrimSuffix)
  with assms show info: "getBatteryInfo E w = (Panic, w1, [Exec ''/usr/bin/pmset'' [''-g'', ''batt'']])"
    by (simp add: getBatteryInfo_def bind_def getCommandOutput_eval)
  then show "updateBattery E hostname w = (Panic, w1, [Exec ''/usr/bin/pmset'' [''-g'', ''batt'']])"
    by (simp add: updateBattery_def bind_def)
next
  assume "has_percent out"
  then have "FindStringSubmatch (TrimSuffix out [CHR 0x0A]) \<noteq> None"
    by (simp add: FindStringSubmatch_None has_percent_TrimSuffix)
  then obtain m where m: "FindStringSubmatch (TrimSuffix out [CHR 0x0A]) = Some m" by blast
  from FindStringSubmatch_Some[OF m] obtain ds where
    ds: "m = [ds @ ''%'', ds]" "ds \<noteq> []" "list_all is_digit ds" by blast
  with assms m have "getBatteryInfo E w =
      (Ret (ds, Contains (TrimSuffix out [CHR 0x0A]) ''AC Power''), w1, [Exec ''/usr/bin/pmset'' [''-g'', ''batt'']])"
    by (simp add: getBatteryInfo_def bind_def getCommandOutput_eval ret_def)
  with ds show "\<exists>percent isCharging.
               getBatteryInfo E w =
                 (Ret (percent, isCharging), w1, [Exec ''/usr/bin/pmset'' [''-g'', ''batt'']])
               \<and> percent \<noteq> [] \<and> list_all is_digit percent" by blast
qed

theorem battery_read_without_percent_panics_witness:
  "updateBattery desktop_host ''testhost'' () = (Panic, (), [Exec ''/usr/bin/pmset'' [''-g'', ''batt'']])
   \<and> (\<exists>percent isCharging.
        getBatteryInfo stuck_host () =
          (Ret (percent, isCharging), (), [Exec ''/usr/bin/pmset'' [''-g'', ''batt'']])
        \<and> percent \<noteq> [] \<and> list_all is_digit percent)"
proof -
  have run1: "run desktop_host ''/usr/bin/pmset'' [''-g'', ''batt''] () =
      (Inr (''Now drawing from '' @ [CHR 0x27] @ ''AC Power'' @ [CHR 0x27, CHR 0x0A]), ())"
    by (simp add: desktop_host_def stuck_host_def)
  have no: "\<not> has_percent (''Now drawing from '' @ [CHR 0x27] @ ''AC Power'' @ [CHR 0x27, CHR 0x0A])"
    by code_simp
  have run2: "run stuck_host ''/usr/bin/pmset'' [''-g'', ''batt''] () =
      (Inr ('' -InternalBattery-0 (id=4653155) 87%; discharging'' @ [CHR 0x0A]), ())"
    by (simp add: stuck_host_def)
  have yes: "has_percent ('' -InternalBattery-0 (id=4653155) 87%; discharging'' @ [CHR 0x0A])"
    by code_simp
  from battery_read_without_percent_panics[OF run1, of "''testhost''"] no
       battery_read_without_percent_panics[OF run2, of "''testhost''"] yes
  show ?thesis by blast
qed


text \<open>
  C8. The host identity is to be the first dot-separated part of the machine's name with
  every character outside \<^verbatim>\<open>[a-zA-Z0-9_-]\<close> removed. \<^verbatim>\<open>getHostname\<close> computes exactly that,
  but \<^verbatim>\<open>main\<close> does not call it: on a machine named \<^verbatim>\<open>studio.local\<close>, for which
  \<^verbatim>\<open>getHostname\<close> gives \<^verbatim>\<open>studio\<close>, the globals are set to the constant \<^verbatim>\<open>MacBookPRO_M2\<close>.
\<close>

theorem host_identity_ignores_machine_name:
  "machine_name stuck_host () = Inr ''studio.local''
   \<and> getHostname stuck_host () = (Ret ''studio'', (), [])
   \<and> main_globals stuck_host () = (Ret (''MacBookPRO_M2'', ''MacBookPRO_M2''), (), [])"
  by (simp add: getHostname_eval main_globals_def Let_def ret_def stuck_host_def in_class_def)

end
